theory Spec2Isabelle
  imports Main "HOL-Library.AList"
begin

section \<open>Type expressions, errors and parser instances\<close>

text \<open>
  The keys of the parser registry are Python type objects. A plain runtime object is
  either a class (\<open>int\<close>, \<open>list\<close>, a user class) or a special form of
  \<open>typing\<close> that is not a class (\<open>typing.Union\<close>). A generic alias
  (\<open>List[int]\<close>, \<open>Union[int, str]\<close>, the bare \<open>typing.List\<close>) carries
  the plain object it was built from and its type arguments; \<open>typing.get_origin\<close>
  and \<open>typing.get_args\<close> read them back and give \<open>None\<close> and \<open>()\<close> on a
  plain object.
\<close>

datatype tycon = Class string | Special string

datatype pytype = Plain tycon | Alias tycon "pytype list"

fun get_origin :: "pytype \<Rightarrow> pytype option" where
  "get_origin (Plain c) = None"
| "get_origin (Alias c type_args) = Some (Plain c)"

fun get_args :: "pytype \<Rightarrow> pytype list" where
  "get_args (Plain c) = []"
| "get_args (Alias c type_args) = type_args"

definition str :: pytype where
  "str = Plain (Class ''str'')"

definition int_type :: pytype where
  "int_type = Plain (Class ''int'')"

definition object :: pytype where
  "object = Plain (Class ''object'')"

definition typing_Union :: pytype where
  "typing_Union = Plain (Special ''Union'')"

definition typing_Tuple :: pytype where
  "typing_Tuple = Plain (Class ''tuple'')"

definition typing_Collection :: pytype where
  "typing_Collection = Plain (Class ''Collection'')"

datatype error = TypeError string | ValueError string | KeyError string
  | AttributeError string | StopIteration

text \<open>The second argument of \<open>issubclass\<close>: one class, or a tuple of classes.\<close>

datatype class_or_tuple = One pytype | Many "pytype list"

text \<open>
  A parser class is known by its name. An instance records the class and the arguments
  of the constructor call that made it: the positional inner parsers and the keyword
  \<open>collection_type\<close>.
\<close>

type_synonym pclass = string

datatype parser = Parser (parser_class: pclass) (parser_args: "parser list")
  (parser_collection_type: "pytype option")

text \<open>\<open>Parser.default\<close> of base.py: \<open>return cls()\<close>.\<close>

definition Parser_default :: "pclass \<Rightarrow> parser" where
  "Parser_default cls = Parser cls [] None"

text \<open>
  What the code takes from the Python runtime: the builtin \<open>issubclass\<close>, which
  answers or raises \<open>TypeError\<close> (\<open>Inl\<close> of its message); the attribute
  \<open>__name__\<close> of an object, which classes have and some objects that stand in type
  expressions have not (\<open>None\<close>: the access raises \<open>AttributeError\<close>); and
  the classmethod \<open>default\<close> as each parser class has it (base.py lets child classes
  overwrite it).
\<close>

record python =
  py_issubclass :: "pytype \<Rightarrow> class_or_tuple \<Rightarrow> string + bool"
  py_name :: "pytype \<Rightarrow> string option"
  parser_default :: "pclass \<Rightarrow> parser"

text \<open>\<open>repr\<close> of a string without quotes or escapes, as \<open>{...!r}\<close> prints a name.\<close>

definition repr :: "string \<Rightarrow> string" where
  "repr s = CHR 0x27 # s @ [CHR 0x27]"

section \<open>The parser registry (base.py)\<close>

text \<open>
  \<open>_PARSERS\<close> maps a type to a parser class; \<open>_REV_PARSERS\<close> maps a parser
  class to the tuple of types it was registered for. The second is iterated, so it is
  kept as a Python dict keeps it: in insertion order, an assignment to a present key
  replacing the value in place (\<open>AList.update\<close>).
\<close>

record registry =
  PARSERS :: "pytype \<rightharpoonup> pclass"
  REV_PARSERS :: "(pclass \<times> pytype list) list"

definition empty_registry :: registry where
  "empty_registry = \<lparr>PARSERS = Map.empty, REV_PARSERS = []\<rparr>"

text \<open>\<open>_issubclass\<close>: the builtin, and identity of objects where the builtin raises.\<close>

definition priv_issubclass :: "python \<Rightarrow> pytype \<Rightarrow> class_or_tuple \<Rightarrow> bool" where
  "priv_issubclass py cls class_or_tuple =
     (case py_issubclass py cls class_or_tuple of
        Inr b \<Rightarrow> b
      | Inl msg \<Rightarrow>
          (case class_or_tuple of
             Many cs \<Rightarrow> list_ex (\<lambda>cls'. cls = cls') cs
           | One c \<Rightarrow> cls = c))"

text \<open>\<open>typing.get_origin(ty) or ty\<close>\<close>

definition origin_or_self :: "pytype \<Rightarrow> pytype" where
  "origin_or_self ty = (case get_origin ty of Some origin \<Rightarrow> origin | None \<Rightarrow> ty)"

text \<open>\<open>dict.setdefault\<close> on the two dicts.\<close>

definition map_setdefault :: "('k \<rightharpoonup> 'v) \<Rightarrow> 'k \<Rightarrow> 'v \<Rightarrow> ('k \<rightharpoonup> 'v)" where
  "map_setdefault m k v = (case m k of Some old \<Rightarrow> m | None \<Rightarrow> m(k \<mapsto> v))"

definition alist_setdefault :: "'k \<Rightarrow> 'v \<Rightarrow> ('k \<times> 'v) list \<Rightarrow> ('k \<times> 'v) list" where
  "alist_setdefault k v al = (case map_of al k of Some old \<Rightarrow> al | None \<Rightarrow> al @ [(k, v)])"

text \<open>The two loops of \<open>register_parser\<close> over the normalised types.\<close>

fun assign_all :: "(pytype \<rightharpoonup> pclass) \<Rightarrow> pclass \<Rightarrow> pytype list \<Rightarrow> (pytype \<rightharpoonup> pclass)" where
  "assign_all m parser [] = m"
| "assign_all m parser (ty # types) = assign_all (m(ty \<mapsto> parser)) parser types"

fun setdefault_all :: "(pytype \<rightharpoonup> pclass) \<Rightarrow> pclass \<Rightarrow> pytype list \<Rightarrow> (pytype \<rightharpoonup> pclass)" where
  "setdefault_all m parser [] = m"
| "setdefault_all m parser (ty # types) =
     setdefault_all (map_setdefault m ty parser) parser types"

definition register_parser :: "registry \<Rightarrow> pclass \<Rightarrow> pytype list \<Rightarrow> bool \<Rightarrow> registry" where
  "register_parser R parser types force =
     (let types' = map origin_or_self types in
      if force then
        \<lparr>PARSERS = assign_all (PARSERS R) parser types',
         REV_PARSERS = AList.update parser types' (REV_PARSERS R)\<rparr>
      else
        \<lparr>PARSERS = setdefault_all (PARSERS R) parser types',
         REV_PARSERS = alist_setdefault parser types' (REV_PARSERS R)\<rparr>)"

text \<open>The slow lookup of \<open>_get_parser_type\<close>: the loop over \<open>_REV_PARSERS.items()\<close>.\<close>

fun scan_rev_parsers :: "python \<Rightarrow> pytype \<Rightarrow> (pclass \<times> pytype list) list \<Rightarrow> pclass option" where
  "scan_rev_parsers py ty [] = None"
| "scan_rev_parsers py ty ((parser, parser_types) # rest) =
     (if priv_issubclass py ty (Many parser_types) then Some parser
      else scan_rev_parsers py ty rest)"

text \<open>
  The last two lines of \<open>_get_parser_type\<close>: the message is built from
  \<open>type_.__name__\<close> before the \<open>TypeError\<close> is raised, so an object without
  that attribute ends the call with \<open>AttributeError\<close> (here with the name of the
  attribute as its argument).
\<close>

definition no_parser_error :: "python \<Rightarrow> pytype \<Rightarrow> error" where
  "no_parser_error py ty =
     (case py_name py ty of
        None \<Rightarrow> AttributeError ''__name__''
      | Some name \<Rightarrow> TypeError (''No parser available for type '' @ repr name @ ''.''))"

definition priv_get_parser_type :: "python \<Rightarrow> registry \<Rightarrow> pytype \<Rightarrow> error + pclass" where
  "priv_get_parser_type py R ty =
     (case PARSERS R ty of
        Some parser \<Rightarrow> Inr parser
      | None \<Rightarrow>
          (case scan_rev_parsers py ty (REV_PARSERS R) of
             Some parser \<Rightarrow> Inr parser
           | None \<Rightarrow> Inl (no_parser_error py ty)))"


section \<open>The generic resolver (base.py, \<open>get_parser\<close>)\<close>

text \<open>
  A list comprehension over fallible calls: the first exception ends it, in list order.
\<close>

fun collect :: "('e + 'a) list \<Rightarrow> 'e + 'a list" where
  "collect [] = Inr []"
| "collect (x # xs) =
     (case x of
        Inl e \<Rightarrow> Inl e
      | Inr v \<Rightarrow> (case collect xs of Inl e \<Rightarrow> Inl e | Inr vs \<Rightarrow> Inr (v # vs)))"

definition could_not_create_error :: "python \<Rightarrow> pytype \<Rightarrow> error" where
  "could_not_create_error py ty =
     (case py_name py ty of
        None \<Rightarrow> AttributeError ''__name__''
      | Some name \<Rightarrow> TypeError (''Coult not create a parser for type '' @ repr name @ ''.''))"

text \<open>The nesting depth of aliases: what the recursion of \<open>get_parser\<close> goes down on.\<close>

fun depth :: "pytype \<Rightarrow> nat" where
  "depth (Plain c) = 0"
| "depth (Alias c type_args) = Suc (sum_list (map depth type_args))"

lemma depth_member: "x \<in> set xs \<Longrightarrow> depth x < Suc (sum_list (map depth xs))"
  by (induction xs) auto

text \<open>
  \<open>get_parser\<close>. The first equation is the branch \<open>if not origin\<close>; in the second
  \<open>origin\<close> is \<open>Plain c\<close> and \<open>type_args\<close> is \<open>typing.get_args(type_)\<close>.
  \<open>parser_type\<close> is looked up before the shape of the origin is examined, as in the
  source. \<open>next(iter(type_args), str)\<close> is the case distinction on \<open>type_args\<close>.
\<close>

function get_parser :: "python \<Rightarrow> registry \<Rightarrow> pytype \<Rightarrow> error + parser" where
  "get_parser py R (Plain c) =
     (case priv_get_parser_type py R (Plain c) of
        Inl e \<Rightarrow> Inl e
      | Inr parser_type \<Rightarrow> Inr (parser_default py parser_type))"
| "get_parser py R (Alias c type_args) =
     (case priv_get_parser_type py R (Plain c) of
        Inl e \<Rightarrow> Inl e
      | Inr parser_type \<Rightarrow>
          if Plain c = typing_Union then
            (case collect (map (get_parser py R) type_args) of
               Inl e \<Rightarrow> Inl e
             | Inr inner_parsers \<Rightarrow> Inr (Parser parser_type inner_parsers None))
          else
            (case py_issubclass py (Plain c) (One typing_Tuple) of
               Inl msg \<Rightarrow> Inl (TypeError msg)
             | Inr True \<Rightarrow>
                 (case collect (map (get_parser py R) type_args) of
                    Inl e \<Rightarrow> Inl e
                  | Inr inner_parsers \<Rightarrow> Inr (Parser parser_type inner_parsers None))
             | Inr False \<Rightarrow>
                 (case py_issubclass py (Plain c) (One typing_Collection) of
                    Inl msg \<Rightarrow> Inl (TypeError msg)
                  | Inr True \<Rightarrow>
                      (case get_parser py R
                              (case type_args of [] \<Rightarrow> str | inner_type # others \<Rightarrow> inner_type) of
                         Inl e \<Rightarrow> Inl e
                       | Inr inner_parser \<Rightarrow>
                           Inr (Parser parser_type [inner_parser] (Some (Plain c))))
                  | Inr False \<Rightarrow>
                      Inl (could_not_create_error py (Alias c type_args)))))"
  by pat_completeness auto
termination
  by (relation "measure (\<lambda>(py, R, ty). depth ty)")
     (auto simp: depth_member str_def split: list.split)

section \<open>The component factory (factory.py)\<close>

text \<open>
  A field descriptor, as far as the factory reads it: \<open>field.name\<close>,
  \<open>field.type\<close> (\<open>None\<close> without an annotation) and the parser the field was
  declared with, which is what \<open>fields.get_parser(field)\<close> returns (\<open>None\<close>
  when the field carries none).
\<close>

text \<open>
  A parser that is kept and handed around is an object: two constructor calls make two
  objects, however alike, and the parser classes define no equality of their own, so
  \<open>is\<close> and \<open>==\<close> both compare the objects. An instance is the address the
  object was created at, together with the parser it is.
\<close>

datatype parser_instance = Instance (instance_id: nat) (instance_parser: parser)

record field =
  field_name :: string
  field_type :: "pytype option"
  field_parser :: "parser_instance option"

text \<open>
  The builder and the factories it builds can hold the same dict object, so the dicts of
  parsers live in a store and are held by address; \<open>fresh\<close> is the next address
  not yet given to an object. A dict is kept in insertion order.
  \<open>types.MappingProxyType(d)\<close> is a view of the dict \<open>d\<close>: it reads \<open>d\<close> as it
  is at the time of reading and refuses item assignment.
\<close>

record heap =
  cell :: "nat \<Rightarrow> (string \<times> parser_instance) list"
  fresh :: nat

datatype mapping = MutableDict nat | MappingProxy nat

definition dict_setitem :: "heap \<Rightarrow> nat \<Rightarrow> string \<Rightarrow> parser_instance \<Rightarrow> heap" where
  "dict_setitem h r k v = h\<lparr>cell := (cell h)(r := AList.update k v (cell h r))\<rparr>"

definition mapping_items :: "heap \<Rightarrow> mapping \<Rightarrow> (string \<times> parser_instance) list" where
  "mapping_items h m = (case m of MutableDict r \<Rightarrow> cell h r | MappingProxy r \<Rightarrow> cell h r)"

definition mapping_getitem :: "heap \<Rightarrow> mapping \<Rightarrow> string \<Rightarrow> error + parser_instance" where
  "mapping_getitem h m k =
     (case map_of (mapping_items h m) k of Some v \<Rightarrow> Inr v | None \<Rightarrow> Inl (KeyError k))"

definition mapping_setitem :: "heap \<Rightarrow> mapping \<Rightarrow> string \<Rightarrow> parser_instance \<Rightarrow> error + heap" where
  "mapping_setitem h m k v =
     (case m of
        MutableDict r \<Rightarrow> Inr (dict_setitem h r k v)
      | MappingProxy r \<Rightarrow>
          Inl (TypeError (repr ''mappingproxy'' @ '' object does not support item assignment'')))"

text \<open>
  A component class is what the factory calls with keyword arguments: a function from
  the keywords to the instance, or to the exception the class raises.
\<close>

record ('v, 'c) builder =
  builder_parsers :: nat
  builder_component :: "(string \<times> 'v) list \<Rightarrow> error + 'c"

record ('v, 'c) factory =
  factory_parsers :: mapping
  factory_component :: "(string \<times> 'v) list \<Rightarrow> error + 'c"

text \<open>Creating a builder: \<open>parsers\<close> is a new empty dict (\<open>attr.field(factory=dict)\<close>).\<close>

definition ComponentFactoryBuilder_init ::
  "heap \<Rightarrow> ((string \<times> 'v) list \<Rightarrow> error + 'c) \<Rightarrow> ('v, 'c) builder \<times> heap" where
  "ComponentFactoryBuilder_init h component =
     (\<lparr>builder_parsers = fresh h, builder_component = component\<rparr>,
      h\<lparr>cell := (cell h)(fresh h := []), fresh := Suc (fresh h)\<rparr>)"

text \<open>
  \<open>add_field\<close>. A parser the descriptor carries is an object that exists already.
  Otherwise \<open>.default()\<close>, a classmethod, is called on the instance that
  \<open>get_parser\<close> returned: it runs \<open>default\<close> of that instance's class and
  makes a new object, which gets the next address (the instance \<open>get_parser\<close> built
  is dropped and is given none).
\<close>

definition add_field ::
  "python \<Rightarrow> registry \<Rightarrow> heap \<Rightarrow> ('v, 'c) builder \<Rightarrow> field \<Rightarrow> error + parser_instance \<times> heap" where
  "add_field py R h self f =
     (case (case field_parser f of
              Some parser \<Rightarrow> Inr (parser, h)
            | None \<Rightarrow>
                (let fty = (case field_type f of Some ty \<Rightarrow> ty | None \<Rightarrow> str) in
                 case get_parser py R fty of
                   Inl e \<Rightarrow> Inl e
                 | Inr resolved \<Rightarrow>
                     Inr (Instance (fresh h) (parser_default py (parser_class resolved)),
                          h\<lparr>fresh := Suc (fresh h)\<rparr>))) of
        Inl e \<Rightarrow> Inl e
      | Inr (parser, h1) \<Rightarrow>
          Inr (parser, dict_setitem h1 (builder_parsers self) (field_name f) parser))"

definition build :: "('v, 'c) builder \<Rightarrow> ('v, 'c) factory" where
  "build self =
     \<lparr>factory_parsers = MappingProxy (builder_parsers self),
      factory_component = builder_component self\<rparr>"

text \<open>
  \<open>loads\<close> has effects the claims speak of: which fields were decoded, and whether the
  component was constructed. They are recorded as a trace beside the result. The
  \<open>loads\<close> method of the parsers is a parameter \<open>L\<close>: given the instance, the
  interaction and the raw string it returns the value or the exception raised (after
  awaiting, where it is a coroutine).
\<close>

datatype 'v event = Decode string string | Construct "(string \<times> 'v) list"

definition loads_param ::
  "('v, 'c) factory \<Rightarrow> heap \<Rightarrow> (parser_instance \<Rightarrow> 'i \<Rightarrow> string \<Rightarrow> error + 'v) \<Rightarrow> 'i \<Rightarrow> string \<Rightarrow> string
     \<Rightarrow> (error + 'v) \<times> 'v event list" where
  "loads_param self h L interaction param val =
     (case mapping_getitem h (factory_parsers self) param of
        Inl e \<Rightarrow> (Inl e, [])
      | Inr parser \<Rightarrow> (L parser interaction val, [Decode param val]))"

text \<open>
  The dict comprehension of \<open>loads\<close>, over \<open>params.items()\<close>; \<open>if value\<close> on a
  string is its being non-empty.
\<close>

fun loads_kwargs ::
  "('v, 'c) factory \<Rightarrow> heap \<Rightarrow> (parser_instance \<Rightarrow> 'i \<Rightarrow> string \<Rightarrow> error + 'v) \<Rightarrow> 'i
     \<Rightarrow> (string \<times> string) list \<Rightarrow> (string \<times> 'v) list
     \<Rightarrow> (error + (string \<times> 'v) list) \<times> 'v event list" where
  "loads_kwargs self h L interaction [] kwargs = (Inr kwargs, [])"
| "loads_kwargs self h L interaction ((param, val) # rest) kwargs =
     (if val \<noteq> [] then
        (case loads_param self h L interaction param val of
           (Inl e, evs) \<Rightarrow> (Inl e, evs)
         | (Inr v, evs) \<Rightarrow>
             (case loads_kwargs self h L interaction rest (AList.update param v kwargs) of
                (r, evs') \<Rightarrow> (r, evs @ evs')))
      else loads_kwargs self h L interaction rest kwargs)"

definition factory_loads ::
  "('v, 'c) factory \<Rightarrow> heap \<Rightarrow> (parser_instance \<Rightarrow> 'i \<Rightarrow> string \<Rightarrow> error + 'v) \<Rightarrow> 'i
     \<Rightarrow> (string \<times> string) list \<Rightarrow> (error + 'c) \<times> 'v event list" where
  "factory_loads self h L interaction params =
     (case loads_kwargs self h L interaction params [] of
        (Inl e, evs) \<Rightarrow> (Inl e, evs)
      | (Inr kwargs, evs) \<Rightarrow> (factory_component self kwargs, evs @ [Construct kwargs]))"

section \<open>The enum parser (enum.py)\<close>

text \<open>
  An enum or flag class, as far as \<open>EnumParser\<close> reads it: whether it is a subclass of
  \<open>disnake.flags.BaseFlags\<close>, its attribute \<open>_member_type_\<close> where it has one,
  and its members in iteration order, each with its name and the type of its value.
\<close>

record enum_class =
  is_baseflags :: bool
  member_type :: "pytype option"
  members :: "(string \<times> pytype) list"

definition priv_get_enum_type :: "enum_class \<Rightarrow> error + pytype option" where
  "priv_get_enum_type E =
     (if is_baseflags E then Inr (Some int_type)
      else
        (let maybe_type = (case member_type E of Some ty \<Rightarrow> ty | None \<Rightarrow> object) in
         if maybe_type \<noteq> object then Inr (Some maybe_type)
         else
           (case members E of
              [] \<Rightarrow> Inl StopIteration
            | (first_name, first_type) # rest \<Rightarrow>
                if list_all (\<lambda>(member_name, ty). ty = first_type) rest
                then Inr (Some first_type)
                else Inr None)))"

record enum_parser =
  store_by_value :: bool
  value_type :: pytype
  enum_cls :: enum_class
  value_parser :: parser

definition flags_by_name_msg :: string where
  "flags_by_name_msg = ''Cannot store disnake flags by name, as their members do not have names.''"

definition varying_types_msg :: string where
  "varying_types_msg =
     ''Cannot store enum members by value for enums with members of varying types.''
     @ '' Please either set `store_by_value` to False''
     @ '' or make sure all enum members are of the same type.''"

text \<open>The last two statements of \<open>EnumParser.__init__\<close>.\<close>

definition EnumParser_finish ::
  "python \<Rightarrow> registry \<Rightarrow> enum_class \<Rightarrow> bool \<Rightarrow> pytype \<Rightarrow> error + enum_parser" where
  "EnumParser_finish py R E sbv vty =
     (case get_parser py R vty of
        Inl e \<Rightarrow> Inl e
      | Inr vp \<Rightarrow>
          Inr \<lparr>store_by_value = sbv, value_type = vty, enum_cls = E, value_parser = vp\<rparr>)"

text \<open>
  \<open>EnumParser.__init__\<close>; the keyword \<open>store_by_value\<close> is \<open>None\<close>, \<open>True\<close> or
  \<open>False\<close>, and \<open>not store_by_value\<close> holds of the first and the last.
\<close>

definition EnumParser_init ::
  "python \<Rightarrow> registry \<Rightarrow> enum_class \<Rightarrow> bool option \<Rightarrow> error + enum_parser" where
  "EnumParser_init py R E sbv =
     (case priv_get_enum_type E of
        Inl e \<Rightarrow> Inl e
      | Inr vty \<Rightarrow>
          if is_baseflags E \<and> sbv = Some False then Inl (ValueError flags_by_name_msg)
          else if vty = None \<and> sbv \<noteq> Some True then EnumParser_finish py R E False str
          else
            (case vty of
               Some ty \<Rightarrow>
                 (case sbv of
                    None \<Rightarrow>
                      (case py_issubclass py ty (One int_type) of
                         Inl msg \<Rightarrow> Inl (TypeError msg)
                       | Inr b \<Rightarrow> EnumParser_finish py R E b ty)
                  | Some b \<Rightarrow> EnumParser_finish py R E b ty)
             | None \<Rightarrow> Inl (ValueError varying_types_msg)))"

section \<open>A small Python world to run the definitions in\<close>

text \<open>
  A class table (each class with its proper superclasses), the builtin \<open>issubclass\<close>
  over it, and the parser classes of a small program. The builtin raises
  \<open>TypeError\<close> when its first argument is not a class, and when it meets an entry
  of the tuple that is not a class before it has found a superclass. Every object has a
  \<open>__name__\<close> but \<open>Ellipsis\<close>, the second argument of \<open>Tuple[int, ...]\<close>.
\<close>

definition example_bases :: "(string \<times> string list) list" where
  "example_bases =
     [(''object'', []),
      (''int'', [''object'']),
      (''bool'', [''int'', ''object'']),
      (''str'', [''Collection'', ''object'']),
      (''list'', [''Collection'', ''object'']),
      (''set'', [''Collection'', ''object'']),
      (''tuple'', [''Collection'', ''object'']),
      (''Collection'', [''object'']),
      (''Base'', [''object'']),
      (''Derived'', [''Base'', ''object'']),
      (''Other'', [''Base'', ''object''])]"

definition example_subclass :: "string \<Rightarrow> string \<Rightarrow> bool" where
  "example_subclass c k =
     (c = k \<or> (case map_of example_bases c of Some bs \<Rightarrow> k \<in> set bs | None \<Rightarrow> False))"

fun example_issubclass_tuple :: "string \<Rightarrow> pytype list \<Rightarrow> string + bool" where
  "example_issubclass_tuple c [] = Inr False"
| "example_issubclass_tuple c (Plain (Class k) # ks) =
     (if example_subclass c k then Inr True else example_issubclass_tuple c ks)"
| "example_issubclass_tuple c (other # ks) =
     Inl ''issubclass() arg 2 must be a class, a tuple of classes, or a union''"

fun example_issubclass :: "pytype \<Rightarrow> class_or_tuple \<Rightarrow> string + bool" where
  "example_issubclass (Plain (Class c)) (One k) = example_issubclass_tuple c [k]"
| "example_issubclass (Plain (Class c)) (Many ks) = example_issubclass_tuple c ks"
| "example_issubclass other (Many []) = Inr False"
| "example_issubclass other ks = Inl ''issubclass() arg 1 must be a class''"

fun example_name :: "pytype \<Rightarrow> string option" where
  "example_name (Plain (Class n)) = Some n"
| "example_name (Plain (Special n)) = (if n = ''Ellipsis'' then None else Some n)"
| "example_name (Alias (Class n) type_args) = Some n"
| "example_name (Alias (Special n) type_args) = Some n"

definition example_python :: python where
  "example_python =
     \<lparr>py_issubclass = example_issubclass, py_name = example_name,
      parser_default = Parser_default\<rparr>"

definition example_registry :: registry where
  "example_registry =
     register_parser
       (register_parser
          (register_parser
             (register_parser empty_registry ''StringParser'' [str] True)
             ''IntParser'' [int_type] True)
          ''CollectionParser'' [Alias (Class ''list'') [], Plain (Class ''set'')] True)
       ''UnionParser'' [typing_Union] True"

text \<open>A store without dicts; the addresses 0 and 1 are taken by two parsers made before.\<close>

definition example_heap :: heap where
  "example_heap = \<lparr>cell = (\<lambda>r. []), fresh = 2\<rparr>"

definition example_component :: "(string \<times> string) list \<Rightarrow> error + (string \<times> string) list" where
  "example_component kwargs = Inr kwargs"

text \<open>Two parsers' \<open>loads\<close>: the integer parser accepts digits only.\<close>

definition example_loads :: "parser_instance \<Rightarrow> unit \<Rightarrow> string \<Rightarrow> error + string" where
  "example_loads p interaction s =
     (if parser_class (instance_parser p) = ''IntParser'' \<and> \<not> list_all (\<lambda>ch. ch \<in> set ''0123456789'') s
      then Inl (ValueError (''invalid literal for int() with base 10: '' @ repr s))
      else Inr s)"

text \<open>
  A factory for a component with the fields \<open>user_id: int\<close>, \<open>page: int\<close>
  and \<open>note: str\<close>, its parsers held in the dict at address 0.
\<close>

definition example_factory_heap :: heap where
  "example_factory_heap =
     \<lparr>cell = (\<lambda>r. if r = 0
                   then [(''user_id'', Instance 1 (Parser ''IntParser'' [] None)),
                         (''page'', Instance 2 (Parser ''IntParser'' [] None)),
                         (''note'', Instance 3 (Parser ''StringParser'' [] None))]
                   else []),
      fresh = 4\<rparr>"

definition example_factory :: "(string, (string \<times> string) list) factory" where
  "example_factory =
     \<lparr>factory_parsers = MappingProxy 0, factory_component = example_component\<rparr>"

text \<open>
  Three enum classes: one whose members all have integer values, one with an integer and
  a string value, and a disnake flags class.
\<close>

definition example_color :: enum_class where
  "example_color =
     \<lparr>is_baseflags = False, member_type = None,
      members = [(''RED'', int_type), (''GREEN'', int_type)]\<rparr>"

definition example_mixed :: enum_class where
  "example_mixed =
     \<lparr>is_baseflags = False, member_type = None,
      members = [(''A'', int_type), (''B'', str)]\<rparr>"

definition example_flags :: enum_class where
  "example_flags =
     \<lparr>is_baseflags = True, member_type = None,
      members = [(''read'', int_type), (''write'', int_type)]\<rparr>"

text \<open>A builder, created in the empty store, and four field descriptors.\<close>

definition example_builder :: "(string, (string \<times> string) list) builder" where
  "example_builder = fst (ComponentFactoryBuilder_init example_heap example_component)"

definition example_builder_heap :: heap where
  "example_builder_heap =
     snd (ComponentFactoryBuilder_init example_heap
            (example_component :: (string \<times> string) list \<Rightarrow> error + (string \<times> string) list))"

definition field_page_int :: field where
  "field_page_int =
     \<lparr>field_name = ''page'', field_type = Some int_type,
      field_parser = Some (Instance 0 (Parser ''IntParser'' [] None))\<rparr>"

definition field_page_str :: field where
  "field_page_str =
     \<lparr>field_name = ''page'', field_type = Some str,
      field_parser = Some (Instance 1 (Parser ''StringParser'' [] None))\<rparr>"

definition field_note :: field where
  "field_note = \<lparr>field_name = ''note'', field_type = None, field_parser = None\<rparr>"

definition field_tags :: field where
  "field_tags =
     \<lparr>field_name = ''tags'', field_type = Some (Alias (Class ''list'') [int_type]),
      field_parser = None\<rparr>"

section \<open>Properties of the registry\<close>

lemma assign_all_apply:
  "assign_all m parser types k = (if k \<in> set types then Some parser else m k)"
  by (induction types arbitrary: m) auto

lemma setdefault_all_apply:
  "setdefault_all m parser types k =
     (case m k of Some q \<Rightarrow> Some q | None \<Rightarrow> if k \<in> set types then Some parser else None)"
  by (induction types arbitrary: m) (auto simp: map_setdefault_def split: option.splits)

lemma alist_setdefault_eq:
  "alist_setdefault k v al = (if k \<in> fst ` set al then al else al @ [(k, v)])"
  by (auto simp: alist_setdefault_def map_of_eq_None_iff split: option.splits
           dest: map_of_SomeD intro: rev_image_eqI)

lemma update_fresh: "k \<notin> fst ` set al \<Longrightarrow> AList.update k v al = al @ [(k, v)]"
  by (induction al) auto

lemma scan_first_match:
  "\<forall>(q, qkeys)\<in>set before. \<not> priv_issubclass py ty (Many qkeys) \<Longrightarrow>
   priv_issubclass py ty (Many keys) \<Longrightarrow>
   scan_rev_parsers py ty (before @ (parser, keys) # after) = Some parser"
  by (induction before) auto

lemma scan_no_match:
  "scan_rev_parsers py ty al = None \<longleftrightarrow>
   (\<forall>(q, qkeys)\<in>set al. \<not> priv_issubclass py ty (Many qkeys))"
  by (induction al) (auto split: if_splits)

lemma scan_update_match:
  "scan_rev_parsers py ty al = None \<Longrightarrow> priv_issubclass py ty (Many keys) \<Longrightarrow>
   scan_rev_parsers py ty (AList.update parser keys al) = Some parser"
  by (induction al) (auto split: if_splits)

lemma scan_append:
  "scan_rev_parsers py ty al = Some parser \<Longrightarrow> scan_rev_parsers py ty (al @ rest) = Some parser"
  by (induction al) (auto split: if_splits)

lemma resolve_exact:
  "PARSERS R ty = Some parser \<Longrightarrow> priv_get_parser_type py R ty = Inr parser"
  by (simp add: priv_get_parser_type_def)

lemma resolve_unresolved:
  "priv_get_parser_type py R ty = Inl e \<Longrightarrow>
   PARSERS R ty = None \<and> scan_rev_parsers py ty (REV_PARSERS R) = None"
  by (auto simp: priv_get_parser_type_def split: option.splits)

lemma resolve_derived:
  "priv_get_parser_type py
     (register_parser (register_parser R X [Plain b] True) Y [Plain d] True) (Plain d) = Inr Y"
  by (simp add: priv_get_parser_type_def register_parser_def origin_or_self_def)

lemma resolve_other:
  assumes unres: "priv_get_parser_type py R other = Inl e"
    and fresh: "Y \<notin> fst ` set (REV_PARSERS R)"
    and ne: "X \<noteq> Y"
    and ob: "other \<noteq> Plain b" and od: "other \<noteq> Plain d"
    and sub: "priv_issubclass py other (Many [Plain b])"
  shows "priv_get_parser_type py
     (register_parser (register_parser R X [Plain b] True) Y [Plain d] True) other = Inr X"
proof -
  let ?R1 = "register_parser R X [Plain b] True"
  let ?R2 = "register_parser ?R1 Y [Plain d] True"
  from unres have none: "PARSERS R other = None"
    and scan0: "scan_rev_parsers py other (REV_PARSERS R) = None"
    using resolve_unresolved by blast+
  have rev1: "REV_PARSERS ?R1 = AList.update X [Plain b] (REV_PARSERS R)"
    by (simp add: register_parser_def origin_or_self_def)
  have scan1: "scan_rev_parsers py other (REV_PARSERS ?R1) = Some X"
    unfolding rev1 using scan0 sub by (rule scan_update_match)
  have "Y \<notin> fst ` set (REV_PARSERS ?R1)"
    unfolding rev1 using fresh ne by (simp add: dom_update)
  then have rev2: "REV_PARSERS ?R2 = REV_PARSERS ?R1 @ [(Y, [Plain d])]"
    by (simp add: register_parser_def origin_or_self_def update_fresh)
  have scan2: "scan_rev_parsers py other (REV_PARSERS ?R2) = Some X"
    unfolding rev2 using scan1 by (rule scan_append)
  have "PARSERS ?R2 other = None"
    using none ob od by (simp add: register_parser_def origin_or_self_def)
  with scan2 show ?thesis
    by (simp add: priv_get_parser_type_def)
qed

lemma priv_issubclass_iff:
  "priv_issubclass py ty (Many keys) \<longleftrightarrow>
     (py_issubclass py ty (Many keys) = Inr True
      \<or> (\<exists>msg. py_issubclass py ty (Many keys) = Inl msg \<and> ty \<in> set keys))"
  by (auto simp: priv_issubclass_def list_ex_iff split: sum.splits)

lemma resolve_nameless:
  "PARSERS R ty = None \<Longrightarrow> scan_rev_parsers py ty (REV_PARSERS R) = None \<Longrightarrow>
   py_name py ty = None \<Longrightarrow>
   priv_get_parser_type py R ty = Inl (AttributeError ''__name__'')"
  by (simp add: priv_get_parser_type_def no_parser_error_def)

lemmas example_defs =
  example_python_def example_registry_def register_parser_def empty_registry_def
  origin_or_self_def int_type_def str_def object_def typing_Union_def typing_Tuple_def
  typing_Collection_def priv_get_parser_type_def Parser_default_def example_subclass_def
  example_bases_def priv_issubclass_def no_parser_error_def could_not_create_error_def
  repr_def

text \<open>
  The claim reads compatibility as being one of the registered keys or a subclass of one.
  The code asks the builtin \<open>issubclass\<close> about the whole tuple of keys and, where that
  raises, looks for the requested object itself among the keys. With a parser registered
  for \<open>(typing.Union, int)\<close> the builtin raises on \<open>typing.Union\<close> before it
  reaches \<open>int\<close>, so \<open>bool\<close>, a subclass of \<open>int\<close>, finds no parser. The claim
  also says nothing of the registry the two registrations start from: where a parser for
  \<open>object\<close> was registered before, the other subclass of \<open>Base\<close> resolves to
  that parser and not to \<open>X\<close>.
\<close>

theorem C1_resolution_counterexample:
  "py_issubclass example_python (Plain (Class ''bool'')) (One int_type) = Inr True
   \<and> priv_get_parser_type example_python
        (register_parser empty_registry ''P'' [typing_Union, int_type] True)
        (Plain (Class ''bool''))
       = Inl (TypeError (''No parser available for type '' @ repr ''bool'' @ ''.''))
   \<and> py_issubclass example_python (Plain (Class ''Other'')) (One (Plain (Class ''Base'')))
       = Inr True
   \<and> priv_get_parser_type example_python
        (register_parser
           (register_parser
              (register_parser empty_registry ''ObjectParser'' [object] True)
              ''X'' [Plain (Class ''Base'')] True)
           ''Y'' [Plain (Class ''Derived'')] True)
        (Plain (Class ''Other'')) = Inr ''ObjectParser''"
  by (simp add: example_defs)

text \<open>
  Claim C1, as amended. For a requested type, resolution (\<open>_get_parser_type\<close>) returns
  the parser class registered under exactly that key when there is one. Otherwise it
  scans the reverse index in its order and returns the first parser class for whose tuple
  of keys the builtin \<open>issubclass(requested, keys)\<close> answers true, or, where that call
  raises \<open>TypeError\<close> (the requested object is not a class, or a key that is not a
  class stands before a matching one), whose tuple of keys holds the requested object
  itself. When no entry matches and the requested object has a \<open>__name__\<close>, it fails
  with a \<open>TypeError\<close> whose message carries that name. Once \<open>X\<close> is registered
  for \<open>base\<close> and then \<open>Y\<close> for \<open>derived\<close>, \<open>derived\<close> resolves to \<open>Y\<close>;
  and where \<open>Y\<close> is new to the registry and is not \<open>X\<close>, a further class that is a
  subclass of \<open>base\<close>, is neither of the two and could not be resolved before the
  two registrations, resolves to \<open>X\<close>.
\<close>

theorem C1_resolution:
  "(PARSERS R ty = Some parser \<longrightarrow> priv_get_parser_type py R ty = Inr parser)
   \<and> (PARSERS R ty = None
        \<and> REV_PARSERS R = before @ (parser, keys) # after
        \<and> (\<forall>(q, qkeys)\<in>set before.
              \<not> (py_issubclass py ty (Many qkeys) = Inr True
                 \<or> (\<exists>msg. py_issubclass py ty (Many qkeys) = Inl msg \<and> ty \<in> set qkeys)))
        \<and> (py_issubclass py ty (Many keys) = Inr True
            \<or> (\<exists>msg. py_issubclass py ty (Many keys) = Inl msg \<and> ty \<in> set keys))
      \<longrightarrow> priv_get_parser_type py R ty = Inr parser)
   \<and> (PARSERS R ty = None
        \<and> (\<forall>(q, qkeys)\<in>set (REV_PARSERS R).
              \<not> (py_issubclass py ty (Many qkeys) = Inr True
                 \<or> (\<exists>msg. py_issubclass py ty (Many qkeys) = Inl msg \<and> ty \<in> set qkeys)))
        \<and> py_name py ty = Some name
      \<longrightarrow> priv_get_parser_type py R ty
            = Inl (TypeError (''No parser available for type '' @ repr name @ ''.'')))
   \<and> priv_get_parser_type py
        (register_parser (register_parser R X [Plain base] True) Y [Plain derived] True)
        (Plain derived) = Inr Y
   \<and> (priv_get_parser_type py R other = Inl e
        \<and> Y \<notin> fst ` set (REV_PARSERS R) \<and> X \<noteq> Y
        \<and> other \<noteq> Plain base \<and> other \<noteq> Plain derived
        \<and> py_issubclass py other (Many [Plain base]) = Inr True
      \<longrightarrow> priv_get_parser_type py
            (register_parser (register_parser R X [Plain base] True) Y [Plain derived] True)
            other = Inr X)"
proof (intro conjI impI)
  assume "PARSERS R ty = Some parser"
  then show "priv_get_parser_type py R ty = Inr parser" by (rule resolve_exact)
next
  assume a: "PARSERS R ty = None
        \<and> REV_PARSERS R = before @ (parser, keys) # after
        \<and> (\<forall>(q, qkeys)\<in>set before.
              \<not> (py_issubclass py ty (Many qkeys) = Inr True
                 \<or> (\<exists>msg. py_issubclass py ty (Many qkeys) = Inl msg \<and> ty \<in> set qkeys)))
        \<and> (py_issubclass py ty (Many keys) = Inr True
            \<or> (\<exists>msg. py_issubclass py ty (Many keys) = Inl msg \<and> ty \<in> set keys))"
  then have "\<forall>(q, qkeys)\<in>set before. \<not> priv_issubclass py ty (Many qkeys)"
    and "priv_issubclass py ty (Many keys)"
    unfolding priv_issubclass_iff by simp_all
  then have "scan_rev_parsers py ty (before @ (parser, keys) # after) = Some parser"
    by (rule scan_first_match)
  with a show "priv_get_parser_type py R ty = Inr parser"
    by (simp add: priv_get_parser_type_def)
next
  assume a: "PARSERS R ty = None
        \<and> (\<forall>(q, qkeys)\<in>set (REV_PARSERS R).
              \<not> (py_issubclass py ty (Many qkeys) = Inr True
                 \<or> (\<exists>msg. py_issubclass py ty (Many qkeys) = Inl msg \<and> ty \<in> set qkeys)))
        \<and> py_name py ty = Some name"
  then have "\<forall>(q, qkeys)\<in>set (REV_PARSERS R). \<not> priv_issubclass py ty (Many qkeys)"
    unfolding priv_issubclass_iff by simp
  then have "scan_rev_parsers py ty (REV_PARSERS R) = None"
    by (simp add: scan_no_match)
  with a show "priv_get_parser_type py R ty
            = Inl (TypeError (''No parser available for type '' @ repr name @ ''.''))"
    by (simp add: priv_get_parser_type_def no_parser_error_def)
next
  show "priv_get_parser_type py
        (register_parser (register_parser R X [Plain base] True) Y [Plain derived] True)
        (Plain derived) = Inr Y"
    by (rule resolve_derived)
next
  assume a: "priv_get_parser_type py R other = Inl e
        \<and> Y \<notin> fst ` set (REV_PARSERS R) \<and> X \<noteq> Y
        \<and> other \<noteq> Plain base \<and> other \<noteq> Plain derived
        \<and> py_issubclass py other (Many [Plain base]) = Inr True"
  then have "priv_issubclass py other (Many [Plain base])"
    by (simp add: priv_issubclass_iff)
  with a show "priv_get_parser_type py
            (register_parser (register_parser R X [Plain base] True) Y [Plain derived] True)
            other = Inr X"
    by (simp add: resolve_other)
qed

theorem C1_resolution_witness:
  "priv_get_parser_type example_python example_registry int_type = Inr ''IntParser''
   \<and> priv_get_parser_type example_python example_registry (Plain (Class ''bool''))
       = Inr ''IntParser''
   \<and> priv_get_parser_type example_python example_registry (Plain (Class ''Base''))
       = Inl (TypeError (''No parser available for type '' @ repr ''Base'' @ ''.''))
   \<and> priv_get_parser_type example_python
        (register_parser (register_parser empty_registry ''X'' [Plain (Class ''Base'')] True)
           ''Y'' [Plain (Class ''Derived'')] True)
        (Plain (Class ''Derived'')) = Inr ''Y''
   \<and> priv_get_parser_type example_python
        (register_parser (register_parser empty_registry ''X'' [Plain (Class ''Base'')] True)
           ''Y'' [Plain (Class ''Derived'')] True)
        (Plain (Class ''Other'')) = Inr ''X''"
proof (intro conjI)
  show "priv_get_parser_type example_python example_registry int_type = Inr ''IntParser''"
    by (rule C1_resolution [THEN conjunct1, rule_format]) (simp add: example_defs)
  show "priv_get_parser_type example_python example_registry (Plain (Class ''bool''))
       = Inr ''IntParser''"
    by (rule C1_resolution
          [where before = "[(''StringParser'', [str])]" and keys = "[int_type]"
             and after = "[(''CollectionParser'', [Plain (Class ''list''), Plain (Class ''set'')]),
                           (''UnionParser'', [typing_Union])]",
           THEN conjunct2, THEN conjunct1, rule_format])
       (simp add: example_defs)
  show "priv_get_parser_type example_python example_registry (Plain (Class ''Base''))
       = Inl (TypeError (''No parser available for type '' @ repr ''Base'' @ ''.''))"
    by (rule C1_resolution [THEN conjunct2, THEN conjunct2, THEN conjunct1, rule_format])
       (simp add: example_defs)
  show "priv_get_parser_type example_python
        (register_parser (register_parser empty_registry ''X'' [Plain (Class ''Base'')] True)
           ''Y'' [Plain (Class ''Derived'')] True)
        (Plain (Class ''Derived'')) = Inr ''Y''"
    by (rule C1_resolution
          [THEN conjunct2, THEN conjunct2, THEN conjunct2, THEN conjunct1])
  show "priv_get_parser_type example_python
        (register_parser (register_parser empty_registry ''X'' [Plain (Class ''Base'')] True)
           ''Y'' [Plain (Class ''Derived'')] True)
        (Plain (Class ''Other'')) = Inr ''X''"
    by (rule C1_resolution
          [where e = "TypeError (''No parser available for type '' @ repr ''Other'' @ ''.'')",
           THEN conjunct2, THEN conjunct2, THEN conjunct2, THEN conjunct2, rule_format])
       (simp add: example_defs)
qed

lemma alist_setdefault_keeps:
  "map_of al q = Some ks \<Longrightarrow> map_of (alist_setdefault k v al) q = Some ks"
  by (auto simp: alist_setdefault_def split: option.splits)

lemma alist_setdefault_fills:
  "map_of al k = None \<Longrightarrow> map_of (alist_setdefault k v al) k = Some v"
  by (simp add: alist_setdefault_def map_add_def)

text \<open>
  Claim C5. \<open>register_parser(parser, *types, force)\<close>, the keys being the given
  types after normalisation. With \<open>force\<close> true every given key is bound to the
  parser in the forward map, whatever it was bound to, and the parser's entry of the
  reverse index becomes the tuple of the given keys; nothing else changes. With
  \<open>force\<close> false a given key that has no binding is bound to the parser, every key
  that has a binding keeps it, and every entry of the reverse index stays as it is: the
  reverse index only gains an entry, at its end, when the parser had none.
\<close>

theorem C5_register_parser_force:
  "(\<forall>k\<in>set (map origin_or_self types).
        PARSERS (register_parser R parser types True) k = Some parser)
   \<and> (\<forall>k. k \<notin> set (map origin_or_self types) \<longrightarrow>
        PARSERS (register_parser R parser types True) k = PARSERS R k)
   \<and> map_of (REV_PARSERS (register_parser R parser types True)) parser
        = Some (map origin_or_self types)
   \<and> (\<forall>q. q \<noteq> parser \<longrightarrow>
        map_of (REV_PARSERS (register_parser R parser types True)) q
          = map_of (REV_PARSERS R) q)
   \<and> (\<forall>k\<in>set (map origin_or_self types). PARSERS R k = None \<longrightarrow>
        PARSERS (register_parser R parser types False) k = Some parser)
   \<and> (\<forall>k q. PARSERS R k = Some q \<longrightarrow>
        PARSERS (register_parser R parser types False) k = Some q)
   \<and> (\<forall>k. k \<notin> set (map origin_or_self types) \<longrightarrow>
        PARSERS (register_parser R parser types False) k = PARSERS R k)
   \<and> (\<forall>q ks. map_of (REV_PARSERS R) q = Some ks \<longrightarrow>
        map_of (REV_PARSERS (register_parser R parser types False)) q = Some ks)
   \<and> REV_PARSERS (register_parser R parser types False)
        = (if parser \<in> fst ` set (REV_PARSERS R) then REV_PARSERS R
           else REV_PARSERS R @ [(parser, map origin_or_self types)])"
proof (intro conjI)
  show "\<forall>k\<in>set (map origin_or_self types).
        PARSERS (register_parser R parser types True) k = Some parser"
    by (simp add: register_parser_def Let_def assign_all_apply)
  show "\<forall>k. k \<notin> set (map origin_or_self types) \<longrightarrow>
        PARSERS (register_parser R parser types True) k = PARSERS R k"
    by (simp add: register_parser_def Let_def assign_all_apply)
  show "map_of (REV_PARSERS (register_parser R parser types True)) parser
        = Some (map origin_or_self types)"
    by (simp add: register_parser_def Let_def update_conv')
  show "\<forall>q. q \<noteq> parser \<longrightarrow>
        map_of (REV_PARSERS (register_parser R parser types True)) q
          = map_of (REV_PARSERS R) q"
    by (simp add: register_parser_def Let_def update_conv')
  show "\<forall>k\<in>set (map origin_or_self types). PARSERS R k = None \<longrightarrow>
        PARSERS (register_parser R parser types False) k = Some parser"
    by (simp add: register_parser_def Let_def setdefault_all_apply)
  show "\<forall>k q. PARSERS R k = Some q \<longrightarrow>
        PARSERS (register_parser R parser types False) k = Some q"
    by (simp add: register_parser_def Let_def setdefault_all_apply)
  show "\<forall>k. k \<notin> set (map origin_or_self types) \<longrightarrow>
        PARSERS (register_parser R parser types False) k = PARSERS R k"
    by (simp add: register_parser_def Let_def setdefault_all_apply split: option.splits)
  show "\<forall>q ks. map_of (REV_PARSERS R) q = Some ks \<longrightarrow>
        map_of (REV_PARSERS (register_parser R parser types False)) q = Some ks"
    by (simp add: register_parser_def Let_def alist_setdefault_keeps)
  show "REV_PARSERS (register_parser R parser types False)
        = (if parser \<in> fst ` set (REV_PARSERS R) then REV_PARSERS R
           else REV_PARSERS R @ [(parser, map origin_or_self types)])"
    by (simp add: register_parser_def Let_def alist_setdefault_eq)
qed


theorem C5_register_parser_force_witness:
  "PARSERS (register_parser example_registry ''BoolParser'' [int_type, Plain (Class ''bool'')] True)
       int_type = Some ''BoolParser''
   \<and> map_of (REV_PARSERS (register_parser example_registry ''IntParser''
                              [Alias (Class ''bool'') []] True)) ''IntParser''
       = Some [Plain (Class ''bool'')]
   \<and> PARSERS (register_parser example_registry ''BoolParser'' [int_type, Plain (Class ''bool'')] False)
       (Plain (Class ''bool'')) = Some ''BoolParser''
   \<and> PARSERS (register_parser example_registry ''BoolParser'' [int_type, Plain (Class ''bool'')] False)
       int_type = Some ''IntParser''
   \<and> map_of (REV_PARSERS (register_parser example_registry ''IntParser''
                              [Plain (Class ''bool'')] False)) ''IntParser''
       = Some [int_type]"
proof (intro conjI)
  show "PARSERS (register_parser example_registry ''BoolParser'' [int_type, Plain (Class ''bool'')] True)
       int_type = Some ''BoolParser''"
    by (rule C5_register_parser_force [THEN conjunct1, rule_format])
       (simp add: origin_or_self_def int_type_def)
  have "map_of (REV_PARSERS (register_parser example_registry ''IntParser''
                              [Alias (Class ''bool'') []] True)) ''IntParser''
       = Some (map origin_or_self [Alias (Class ''bool'') []])"
    by (rule C5_register_parser_force [THEN conjunct2, THEN conjunct2, THEN conjunct1])
  then show "map_of (REV_PARSERS (register_parser example_registry ''IntParser''
                              [Alias (Class ''bool'') []] True)) ''IntParser''
       = Some [Plain (Class ''bool'')]"
    by (simp add: origin_or_self_def)
  show "PARSERS (register_parser example_registry ''BoolParser'' [int_type, Plain (Class ''bool'')] False)
       (Plain (Class ''bool'')) = Some ''BoolParser''"
    by (rule C5_register_parser_force
          [THEN conjunct2, THEN conjunct2, THEN conjunct2, THEN conjunct2, THEN conjunct1,
           rule_format])
       (simp_all add: example_defs)
  show "PARSERS (register_parser example_registry ''BoolParser'' [int_type, Plain (Class ''bool'')] False)
       int_type = Some ''IntParser''"
    by (rule C5_register_parser_force
          [THEN conjunct2, THEN conjunct2, THEN conjunct2, THEN conjunct2, THEN conjunct2,
           THEN conjunct1, rule_format])
       (simp add: example_defs)
  show "map_of (REV_PARSERS (register_parser example_registry ''IntParser''
                              [Plain (Class ''bool'')] False)) ''IntParser''
       = Some [int_type]"
    by (rule C5_register_parser_force
          [THEN conjunct2, THEN conjunct2, THEN conjunct2, THEN conjunct2, THEN conjunct2,
           THEN conjunct2, THEN conjunct2, THEN conjunct1, rule_format])
       (simp add: example_defs)
qed









section \<open>Properties of the generic resolver\<close>

lemma get_parser_collection:
  assumes "priv_get_parser_type py R (Plain c) = Inr parser_type"
    and "Plain c \<noteq> typing_Union"
    and "py_issubclass py (Plain c) (One typing_Tuple) = Inr False"
    and "py_issubclass py (Plain c) (One typing_Collection) = Inr True"
  shows "get_parser py R (Alias c type_args) =
     (case get_parser py R (case type_args of [] \<Rightarrow> str | inner_type # others \<Rightarrow> inner_type) of
        Inl e \<Rightarrow> Inl e
      | Inr inner_parser \<Rightarrow> Inr (Parser parser_type [inner_parser] (Some (Plain c))))"
  using assms by simp

lemma get_parser_collection_alias:
  "get_origin ty = Some origin
   \<and> origin \<noteq> typing_Union
   \<and> py_issubclass py origin (One typing_Tuple) = Inr False
   \<and> py_issubclass py origin (One typing_Collection) = Inr True
   \<and> priv_get_parser_type py R origin = Inr parser_type
   \<longrightarrow>
     (get_args ty = [] \<longrightarrow>
        get_parser py R ty =
          (case get_parser py R str of
             Inl e \<Rightarrow> Inl e
           | Inr inner_parser \<Rightarrow> Inr (Parser parser_type [inner_parser] (Some origin))))
     \<and> (\<forall>inner_type others. get_args ty = inner_type # others \<longrightarrow>
        get_parser py R ty =
          (case get_parser py R inner_type of
             Inl e \<Rightarrow> Inl e
           | Inr inner_parser \<Rightarrow> Inr (Parser parser_type [inner_parser] (Some origin))))"
proof (intro impI)
  assume a: "get_origin ty = Some origin
   \<and> origin \<noteq> typing_Union
   \<and> py_issubclass py origin (One typing_Tuple) = Inr False
   \<and> py_issubclass py origin (One typing_Collection) = Inr True
   \<and> priv_get_parser_type py R origin = Inr parser_type"
  then obtain c type_args where ty: "ty = Alias c type_args" and origin: "origin = Plain c"
    by (cases ty) auto
  from a have eq: "get_parser py R (Alias c type_args) =
     (case get_parser py R (case type_args of [] \<Rightarrow> str | inner_type # others \<Rightarrow> inner_type) of
        Inl e \<Rightarrow> Inl e
      | Inr inner_parser \<Rightarrow> Inr (Parser parser_type [inner_parser] (Some (Plain c))))"
    unfolding origin by (intro get_parser_collection) simp_all
  show "(get_args ty = [] \<longrightarrow>
        get_parser py R ty =
          (case get_parser py R str of
             Inl e \<Rightarrow> Inl e
           | Inr inner_parser \<Rightarrow> Inr (Parser parser_type [inner_parser] (Some origin))))
     \<and> (\<forall>inner_type others. get_args ty = inner_type # others \<longrightarrow>
        get_parser py R ty =
          (case get_parser py R inner_type of
             Inl e \<Rightarrow> Inl e
           | Inr inner_parser \<Rightarrow> Inr (Parser parser_type [inner_parser] (Some origin))))"
    unfolding ty origin using eq by (cases type_args) simp_all
qed

text \<open>
  The claim speaks of every type expression that is a homogeneous collection. The bare
  classes \<open>list\<close> and \<open>set\<close> are such expressions, and are collections; they have
  no generic origin, so \<open>get_parser\<close> takes its first branch and returns the default
  instance of the registered parser class: no element parser is resolved and no
  collection type is passed, and \<open>list\<close> and \<open>set\<close> get the same parser.
\<close>

theorem C6_collection_resolution_counterexample:
  "py_issubclass example_python (Plain (Class ''set'')) (One typing_Collection) = Inr True
   \<and> get_args (Plain (Class ''set'')) = []
   \<and> get_parser example_python example_registry (Plain (Class ''set''))
       = Inr (Parser ''CollectionParser'' [] None)
   \<and> get_parser example_python example_registry (Plain (Class ''list''))
       = Inr (Parser ''CollectionParser'' [] None)"
  by (simp add: example_defs)

text \<open>
  Claim C6, as amended. Let a type expression have a generic origin (a subscripted alias
  such as \<open>List[int]\<close>, or the bare \<open>typing.List\<close>) that is a collection: the
  origin is not \<open>typing.Union\<close>, is not a subclass of \<open>tuple\<close>, is a subclass of
  \<open>Collection\<close>, and the registry resolves it to a parser class. Then
  \<open>get_parser\<close> takes the first type argument as the element type, or \<open>str\<close>
  when there is no type argument, resolves the element parser by a recursive call whose
  failure it passes on, and returns an instance of the origin's parser class built from
  that one inner parser and \<open>collection_type=origin\<close>. Type arguments after the first
  are not looked at. A type expression without generic origin, a bare collection class
  such as \<open>list\<close> among them, gets the default instance of the parser class the
  registry resolves it to.
\<close>

theorem C6_collection_resolution:
  "(get_origin ty = Some origin
    \<and> origin \<noteq> typing_Union
    \<and> py_issubclass py origin (One typing_Tuple) = Inr False
    \<and> py_issubclass py origin (One typing_Collection) = Inr True
    \<and> priv_get_parser_type py R origin = Inr parser_type
    \<longrightarrow>
      (get_args ty = [] \<longrightarrow>
         get_parser py R ty =
           (case get_parser py R str of
              Inl e \<Rightarrow> Inl e
            | Inr inner_parser \<Rightarrow> Inr (Parser parser_type [inner_parser] (Some origin))))
      \<and> (\<forall>inner_type others. get_args ty = inner_type # others \<longrightarrow>
         get_parser py R ty =
           (case get_parser py R inner_type of
              Inl e \<Rightarrow> Inl e
            | Inr inner_parser \<Rightarrow> Inr (Parser parser_type [inner_parser] (Some origin)))))
   \<and> (get_origin ty = None \<longrightarrow>
        get_parser py R ty =
          (case priv_get_parser_type py R ty of
             Inl e \<Rightarrow> Inl e
           | Inr parser_type' \<Rightarrow> Inr (parser_default py parser_type')))"
proof (intro conjI)
  show "get_origin ty = Some origin
    \<and> origin \<noteq> typing_Union
    \<and> py_issubclass py origin (One typing_Tuple) = Inr False
    \<and> py_issubclass py origin (One typing_Collection) = Inr True
    \<and> priv_get_parser_type py R origin = Inr parser_type
    \<longrightarrow>
      (get_args ty = [] \<longrightarrow>
         get_parser py R ty =
           (case get_parser py R str of
              Inl e \<Rightarrow> Inl e
            | Inr inner_parser \<Rightarrow> Inr (Parser parser_type [inner_parser] (Some origin))))
      \<and> (\<forall>inner_type others. get_args ty = inner_type # others \<longrightarrow>
         get_parser py R ty =
           (case get_parser py R inner_type of
              Inl e \<Rightarrow> Inl e
            | Inr inner_parser \<Rightarrow> Inr (Parser parser_type [inner_parser] (Some origin))))"
    by (rule get_parser_collection_alias)
  show "get_origin ty = None \<longrightarrow>
        get_parser py R ty =
          (case priv_get_parser_type py R ty of
             Inl e \<Rightarrow> Inl e
           | Inr parser_type' \<Rightarrow> Inr (parser_default py parser_type'))"
    by (cases ty) simp_all
qed

theorem C6_collection_resolution_witness:
  "get_parser example_python example_registry (Alias (Class ''list'') [])
     = Inr (Parser ''CollectionParser'' [Parser ''StringParser'' [] None]
              (Some (Plain (Class ''list''))))
   \<and> get_parser example_python example_registry (Alias (Class ''set'') [int_type])
     = Inr (Parser ''CollectionParser'' [Parser ''IntParser'' [] None]
              (Some (Plain (Class ''set''))))
   \<and> get_parser example_python example_registry int_type
     = Inr (Parser ''IntParser'' [] None)"
proof (intro conjI)
  have h: "get_origin (Alias (Class ''list'') []) = Some (Plain (Class ''list''))
     \<and> Plain (Class ''list'') \<noteq> typing_Union
     \<and> py_issubclass example_python (Plain (Class ''list'')) (One typing_Tuple) = Inr False
     \<and> py_issubclass example_python (Plain (Class ''list'')) (One typing_Collection) = Inr True
     \<and> priv_get_parser_type example_python example_registry (Plain (Class ''list''))
         = Inr ''CollectionParser''"
    by (simp add: example_defs)
  have "get_parser example_python example_registry (Alias (Class ''list'') []) =
          (case get_parser example_python example_registry str of
             Inl e \<Rightarrow> Inl e
           | Inr inner_parser \<Rightarrow>
               Inr (Parser ''CollectionParser'' [inner_parser] (Some (Plain (Class ''list'')))))"
    by (rule C6_collection_resolution [THEN conjunct1, THEN mp, OF h, THEN conjunct1, THEN mp]) simp
  then show "get_parser example_python example_registry (Alias (Class ''list'') [])
     = Inr (Parser ''CollectionParser'' [Parser ''StringParser'' [] None]
              (Some (Plain (Class ''list''))))"
    by (simp add: example_defs)
  have h': "get_origin (Alias (Class ''set'') [int_type]) = Some (Plain (Class ''set''))
     \<and> Plain (Class ''set'') \<noteq> typing_Union
     \<and> py_issubclass example_python (Plain (Class ''set'')) (One typing_Tuple) = Inr False
     \<and> py_issubclass example_python (Plain (Class ''set'')) (One typing_Collection) = Inr True
     \<and> priv_get_parser_type example_python example_registry (Plain (Class ''set''))
         = Inr ''CollectionParser''"
    by (simp add: example_defs)
  have "get_parser example_python example_registry (Alias (Class ''set'') [int_type]) =
          (case get_parser example_python example_registry int_type of
             Inl e \<Rightarrow> Inl e
           | Inr inner_parser \<Rightarrow>
               Inr (Parser ''CollectionParser'' [inner_parser] (Some (Plain (Class ''set'')))))"
    by (rule C6_collection_resolution
          [THEN conjunct1, THEN mp, OF h', THEN conjunct2, rule_format, where others = "[]"]) simp
  then show "get_parser example_python example_registry (Alias (Class ''set'') [int_type])
     = Inr (Parser ''CollectionParser'' [Parser ''IntParser'' [] None]
              (Some (Plain (Class ''set''))))"
    by (simp add: example_defs)
  have "get_parser example_python example_registry int_type =
          (case priv_get_parser_type example_python example_registry int_type of
             Inl e \<Rightarrow> Inl e
           | Inr parser_type' \<Rightarrow> Inr (parser_default example_python parser_type'))"
    by (rule C6_collection_resolution [THEN conjunct2, THEN mp]) (simp add: int_type_def)
  then show "get_parser example_python example_registry int_type
     = Inr (Parser ''IntParser'' [] None)"
    by (simp add: example_defs)
qed

section \<open>Properties of the factory\<close>

lemma loads_param_ok:
  "mapping_getitem h (factory_parsers F) n = Inr p \<Longrightarrow>
   loads_param F h L i n v = (L p i v, [Decode n v])"
  by (simp add: loads_param_def)

lemma loads_kwargs_append_ok:
  assumes "\<forall>(n, v)\<in>set before. v \<noteq> [] \<longrightarrow>
             (\<exists>p. mapping_getitem h (factory_parsers F) n = Inr p \<and> L p i v = Inr (dec n v))"
  shows "loads_kwargs F h L i (before @ rest) kwargs =
     (case loads_kwargs F h L i rest
             (fold (\<lambda>(n, v) kw. if v \<noteq> [] then AList.update n (dec n v) kw else kw)
                before kwargs) of
        (r, evs) \<Rightarrow> (r, map (\<lambda>(n, v). Decode n v) (filter (\<lambda>(n, v). v \<noteq> []) before) @ evs))"
  using assms
proof (induction before arbitrary: kwargs)
  case Nil
  show ?case by (simp split: prod.splits)
next
  case (Cons a before)
  obtain n v where a: "a = (n, v)" by (cases a)
  show ?case
  proof (cases "v = []")
    case True
    with Cons a show ?thesis by simp
  next
    case False
    with Cons.prems a obtain p where
      "mapping_getitem h (factory_parsers F) n = Inr p" "L p i v = Inr (dec n v)"
      by auto
    then have lp: "loads_param F h L i n v = (Inr (dec n v), [Decode n v])"
      by (simp add: loads_param_ok)
    from Cons.prems have "\<forall>(n, v)\<in>set before. v \<noteq> [] \<longrightarrow>
             (\<exists>p. mapping_getitem h (factory_parsers F) n = Inr p \<and> L p i v = Inr (dec n v))"
      by simp
    from Cons.IH [OF this] show ?thesis
      using False a lp by (simp split: prod.splits)
  qed
qed

lemma fold_update_distinct:
  "distinct (map fst ps) \<Longrightarrow> fst ` set kw \<inter> fst ` set ps = {} \<Longrightarrow>
   fold (\<lambda>(n, v) kw. if v \<noteq> [] then AList.update n (f n v) kw else kw) ps kw
     = kw @ map (\<lambda>(n, v). (n, f n v)) (filter (\<lambda>(n, v). v \<noteq> []) ps)"
proof (induction ps arbitrary: kw)
  case Nil
  show ?case by simp
next
  case (Cons a ps)
  obtain n v where a: "a = (n, v)" by (cases a)
  from Cons.prems a have fresh: "n \<notin> fst ` set kw" and d: "distinct (map fst ps)"
    and nps: "n \<notin> fst ` set ps" and disj: "fst ` set kw \<inter> fst ` set ps = {}"
    by auto
  show ?case
  proof (cases "v = []")
    case True
    with Cons.IH [OF d disj] a show ?thesis by simp
  next
    case False
    have "fst ` set (kw @ [(n, f n v)]) \<inter> fst ` set ps = {}"
      using disj nps by auto
    from Cons.IH [OF d this] show ?thesis
      using False a fresh by (simp add: update_fresh)
  qed
qed

text \<open>
  Claim C7. Let \<open>params\<close> be the items of a mapping (no name twice), and let every
  entry with a non-empty value name a field of the factory whose parser decodes the
  value. Then \<open>loads\<close> calls the parsers of exactly the entries with a non-empty
  value, in the order of the mapping and each on its own value, and calls the component
  class with the keywords that pair each of those names with its decoded value; the
  result is what that call returns. The entries with an empty value are no keyword.
\<close>

theorem C7_loads_decodes_nonempty:
  "distinct (map fst params)
   \<and> (\<forall>(n, v)\<in>set params. v \<noteq> [] \<longrightarrow>
         (\<exists>p. mapping_getitem h (factory_parsers F) n = Inr p \<and> L p i v = Inr (dec n v)))
   \<longrightarrow>
     factory_loads F h L i params =
       (factory_component F
          (map (\<lambda>(n, v). (n, dec n v)) (filter (\<lambda>(n, v). v \<noteq> []) params)),
        map (\<lambda>(n, v). Decode n v) (filter (\<lambda>(n, v). v \<noteq> []) params)
          @ [Construct (map (\<lambda>(n, v). (n, dec n v)) (filter (\<lambda>(n, v). v \<noteq> []) params))])
     \<and> (\<forall>(n, v)\<in>set params. v = [] \<longrightarrow>
           map_of (map (\<lambda>(n, v). (n, dec n v)) (filter (\<lambda>(n, v). v \<noteq> []) params)) n = None)"
proof (intro impI conjI)
  assume a: "distinct (map fst params)
   \<and> (\<forall>(n, v)\<in>set params. v \<noteq> [] \<longrightarrow>
         (\<exists>p. mapping_getitem h (factory_parsers F) n = Inr p \<and> L p i v = Inr (dec n v)))"
  let ?kw = "map (\<lambda>(n, v). (n, dec n v)) (filter (\<lambda>(n, v). v \<noteq> []) params)"
  from a have ok: "\<forall>(n, v)\<in>set params. v \<noteq> [] \<longrightarrow>
         (\<exists>p. mapping_getitem h (factory_parsers F) n = Inr p \<and> L p i v = Inr (dec n v))"
    and d: "distinct (map fst params)" by simp_all
  have "fold (\<lambda>(n, v) kw. if v \<noteq> [] then AList.update n (dec n v) kw else kw) params [] = ?kw"
    using fold_update_distinct [OF d, of "[]" dec] by simp
  with loads_kwargs_append_ok
         [where before = params and rest = "[]" and kwargs = "[]" and dec = dec and L = L
            and i = i and h = h and F = F, OF ok]
  have "loads_kwargs F h L i params [] =
          (Inr ?kw, map (\<lambda>(n, v). Decode n v) (filter (\<lambda>(n, v). v \<noteq> []) params))"
    by simp
  then show "factory_loads F h L i params =
       (factory_component F ?kw,
        map (\<lambda>(n, v). Decode n v) (filter (\<lambda>(n, v). v \<noteq> []) params) @ [Construct ?kw])"
    by (simp add: factory_loads_def)
  show "\<forall>(n, v)\<in>set params. v = [] \<longrightarrow> map_of ?kw n = None"
  proof (clarify)
    fix n v assume mem: "(n, []) \<in> set params"
    have "n \<notin> fst ` set ?kw"
    proof
      assume "n \<in> fst ` set ?kw"
      then obtain v' where "(n, v') \<in> set params" "v' \<noteq> []" by auto
      with mem d show False by (metis eq_key_imp_eq_value)
    qed
    then show "map_of ?kw n = None" by (simp add: map_of_eq_None_iff)
  qed
qed

text \<open>
  Claim C8. Let the entry \<open>(n, v)\<close> of \<open>params\<close> be the first whose parser fails:
  every entry before it with a non-empty value decodes, \<open>v\<close> is not empty, and the
  parser of \<open>n\<close> raises \<open>e\<close> on \<open>v\<close>. Then \<open>loads\<close> raises \<open>e\<close>; the
  parsers called are those of the non-empty entries up to \<open>(n, v)\<close> and no later one;
  and the component class is not called, so no instance exists.
\<close>

theorem C8_loads_first_error:
  "params = before @ (n, v) # after
   \<and> (\<forall>(n', v')\<in>set before. v' \<noteq> [] \<longrightarrow>
         (\<exists>p'. mapping_getitem h (factory_parsers F) n' = Inr p' \<and> L p' i v' = Inr (dec n' v')))
   \<and> v \<noteq> []
   \<and> mapping_getitem h (factory_parsers F) n = Inr p
   \<and> L p i v = Inl e
   \<longrightarrow>
     factory_loads F h L i params =
       (Inl e, map (\<lambda>(n', v'). Decode n' v') (filter (\<lambda>(n', v'). v' \<noteq> []) before) @ [Decode n v])
     \<and> (\<forall>kwargs. Construct kwargs \<notin> set (snd (factory_loads F h L i params)))"
proof (intro impI)
  assume a: "params = before @ (n, v) # after
   \<and> (\<forall>(n', v')\<in>set before. v' \<noteq> [] \<longrightarrow>
         (\<exists>p'. mapping_getitem h (factory_parsers F) n' = Inr p' \<and> L p' i v' = Inr (dec n' v')))
   \<and> v \<noteq> []
   \<and> mapping_getitem h (factory_parsers F) n = Inr p
   \<and> L p i v = Inl e"
  then have ok: "\<forall>(n', v')\<in>set before. v' \<noteq> [] \<longrightarrow>
         (\<exists>p'. mapping_getitem h (factory_parsers F) n' = Inr p' \<and> L p' i v' = Inr (dec n' v'))"
    by simp
  from a have lp: "loads_param F h L i n v = (Inl e, [Decode n v])"
    by (simp add: loads_param_ok)
  have here: "\<And>kw. loads_kwargs F h L i ((n, v) # after) kw = (Inl e, [Decode n v])"
    using a lp by simp
  have "loads_kwargs F h L i params [] =
          (Inl e, map (\<lambda>(n', v'). Decode n' v') (filter (\<lambda>(n', v'). v' \<noteq> []) before)
                    @ [Decode n v])"
    using a loads_kwargs_append_ok
         [where before = before and rest = "(n, v) # after" and kwargs = "[]" and dec = dec
            and L = L and i = i and h = h and F = F, OF ok] here by simp
  then have res: "factory_loads F h L i params =
       (Inl e, map (\<lambda>(n', v'). Decode n' v') (filter (\<lambda>(n', v'). v' \<noteq> []) before) @ [Decode n v])"
    by (simp add: factory_loads_def)
  have "\<forall>kwargs. Construct kwargs \<notin> set (snd (factory_loads F h L i params))"
    unfolding res by auto
  with res show "factory_loads F h L i params =
       (Inl e, map (\<lambda>(n', v'). Decode n' v') (filter (\<lambda>(n', v'). v' \<noteq> []) before) @ [Decode n v])
     \<and> (\<forall>kwargs. Construct kwargs \<notin> set (snd (factory_loads F h L i params)))"
    by simp
qed

lemmas example_factory_defs =
  example_factory_def example_factory_heap_def example_component_def example_loads_def
  mapping_getitem_def mapping_items_def repr_def

theorem C7_loads_decodes_nonempty_witness:
  "factory_loads example_factory example_factory_heap example_loads ()
       [(''user_id'', ''42''), (''page'', []), (''note'', ''hi'')]
     = (Inr [(''user_id'', ''42''), (''note'', ''hi'')],
        [Decode ''user_id'' ''42'', Decode ''note'' ''hi'',
         Construct [(''user_id'', ''42''), (''note'', ''hi'')]])
   \<and> map_of [(''user_id'', ''42''), (''note'', ''hi'')] ''page'' = None"
proof -
  have h: "distinct (map fst [(''user_id'', ''42''), (''page'', []), (''note'', ''hi'')])
     \<and> (\<forall>(n, v)\<in>set [(''user_id'', ''42''), (''page'', []), (''note'', ''hi'')]. v \<noteq> [] \<longrightarrow>
          (\<exists>p. mapping_getitem example_factory_heap (factory_parsers example_factory) n = Inr p
               \<and> example_loads p () v = Inr ((\<lambda>n v. v) n v)))"
    by (simp add: example_factory_defs)
  from C7_loads_decodes_nonempty
         [where params = "[(''user_id'', ''42''), (''page'', []), (''note'', ''hi'')]"
            and F = example_factory and h = example_factory_heap and L = example_loads
            and i = "()" and dec = "\<lambda>n v. v", THEN mp, OF h]
  show ?thesis by (simp add: example_factory_defs)
qed

theorem C8_loads_first_error_witness:
  "factory_loads example_factory example_factory_heap example_loads ()
       [(''user_id'', ''42''), (''page'', ''x''), (''note'', ''hi'')]
     = (Inl (ValueError (''invalid literal for int() with base 10: '' @ repr ''x'')),
        [Decode ''user_id'' ''42'', Decode ''page'' ''x''])"
proof -
  have h: "[(''user_id'', ''42''), (''page'', ''x''), (''note'', ''hi'')]
        = [(''user_id'', ''42'')] @ (''page'', ''x'') # [(''note'', ''hi'')]
     \<and> (\<forall>(n', v')\<in>set [(''user_id'', ''42'')]. v' \<noteq> [] \<longrightarrow>
          (\<exists>p'. mapping_getitem example_factory_heap (factory_parsers example_factory) n' = Inr p'
                \<and> example_loads p' () v' = Inr ((\<lambda>n v. v) n' v')))
     \<and> ''x'' \<noteq> []
     \<and> mapping_getitem example_factory_heap (factory_parsers example_factory) ''page''
         = Inr (Instance 2 (Parser ''IntParser'' [] None))
     \<and> example_loads (Instance 2 (Parser ''IntParser'' [] None)) () ''x''
         = Inl (ValueError (''invalid literal for int() with base 10: '' @ repr ''x''))"
    by (simp add: example_factory_defs)
  from C8_loads_first_error
         [where params = "[(''user_id'', ''42''), (''page'', ''x''), (''note'', ''hi'')]"
            and before = "[(''user_id'', ''42'')]" and after = "[(''note'', ''hi'')]"
            and F = example_factory and h = example_factory_heap and L = example_loads
            and i = "()" and dec = "\<lambda>n v. v", THEN mp, OF h]
  show ?thesis by simp
qed

section \<open>Properties of the enum parser\<close>

lemma get_enum_type_flags: "is_baseflags E \<Longrightarrow> priv_get_enum_type E = Inr (Some int_type)"
  by (simp add: priv_get_enum_type_def)

lemma get_enum_type_None_not_flags: "priv_get_enum_type E = Inr None \<Longrightarrow> \<not> is_baseflags E"
  by (auto simp: priv_get_enum_type_def)

text \<open>
  The claim reads that an explicit \<open>store_by_value\<close> is respected whenever the members
  share one value type. A disnake flags class has the value type \<open>int\<close>, and its
  construction with \<open>store_by_value=False\<close> is refused by the guard at the head of
  \<open>__init__\<close>.
\<close>

theorem C9_enum_policy_counterexample:
  "list_all (\<lambda>(member_name, ty). ty = int_type) (members example_flags)
   \<and> priv_get_enum_type example_flags = Inr (Some int_type)
   \<and> EnumParser_init example_python example_registry example_flags (Some False)
       = Inl (ValueError flags_by_name_msg)"
  by (simp add: example_flags_def priv_get_enum_type_def EnumParser_init_def)

text \<open>
  Claim C9, as amended. When the value type of the enum is determined (the class is a
  disnake flags class, whose value type is \<open>int\<close>; or it declares a
  \<open>_member_type_\<close> other than \<open>object\<close>; or all its members have values of one
  type), the parser stores by value exactly when that type is a subclass of \<open>int\<close>
  if the caller gave no \<open>store_by_value\<close>, and as the caller said otherwise, except
  that \<open>store_by_value=False\<close> on a disnake flags class fails with a
  \<open>ValueError\<close>. When the members have values of different types, the parser stores
  by name with the parser for \<open>str\<close> unless the caller forces
  \<open>store_by_value=True\<close>, and then construction fails with a \<open>ValueError\<close>.
  In each case that constructs, the inner parser is the one \<open>get_parser\<close> resolves
  for the value type, and its failure is the failure of the construction.
\<close>

theorem C9_enum_policy:
  "(priv_get_enum_type E = Inr (Some ty) \<and> (is_baseflags E \<longrightarrow> sbv \<noteq> Some False) \<longrightarrow>
      EnumParser_init py R E sbv =
        (case sbv of
           Some b \<Rightarrow> EnumParser_finish py R E b ty
         | None \<Rightarrow>
             (case py_issubclass py ty (One int_type) of
                Inl msg \<Rightarrow> Inl (TypeError msg)
              | Inr b \<Rightarrow> EnumParser_finish py R E b ty)))
   \<and> (is_baseflags E \<longrightarrow>
        EnumParser_init py R E (Some False) = Inl (ValueError flags_by_name_msg))
   \<and> (priv_get_enum_type E = Inr None \<and> sbv \<noteq> Some True \<longrightarrow>
        EnumParser_init py R E sbv = EnumParser_finish py R E False str)
   \<and> (priv_get_enum_type E = Inr None \<longrightarrow>
        EnumParser_init py R E (Some True) = Inl (ValueError varying_types_msg))
   \<and> (EnumParser_finish py R E b ty = Inr P \<longrightarrow>
        store_by_value P = b \<and> value_type P = ty \<and> get_parser py R ty = Inr (value_parser P))
   \<and> (is_baseflags E \<longrightarrow> priv_get_enum_type E = Inr (Some int_type))
   \<and> (\<not> is_baseflags E \<and> member_type E = Some mt \<and> mt \<noteq> object \<longrightarrow>
        priv_get_enum_type E = Inr (Some mt))
   \<and> (\<not> is_baseflags E \<and> (member_type E = None \<or> member_type E = Some object)
        \<and> members E = (first_name, first_type) # rest \<longrightarrow>
        priv_get_enum_type E =
          Inr (if list_all (\<lambda>(member_name, ty'). ty' = first_type) rest
               then Some first_type else None))"
proof (intro conjI impI)
  assume a: "priv_get_enum_type E = Inr (Some ty) \<and> (is_baseflags E \<longrightarrow> sbv \<noteq> Some False)"
  then show "EnumParser_init py R E sbv =
        (case sbv of
           Some b \<Rightarrow> EnumParser_finish py R E b ty
         | None \<Rightarrow>
             (case py_issubclass py ty (One int_type) of
                Inl msg \<Rightarrow> Inl (TypeError msg)
              | Inr b \<Rightarrow> EnumParser_finish py R E b ty))"
    by (auto simp: EnumParser_init_def split: option.splits sum.splits)
next
  assume "is_baseflags E"
  then show "EnumParser_init py R E (Some False) = Inl (ValueError flags_by_name_msg)"
    by (simp add: EnumParser_init_def get_enum_type_flags)
next
  assume a: "priv_get_enum_type E = Inr None \<and> sbv \<noteq> Some True"
  then have "\<not> is_baseflags E" by (simp add: get_enum_type_None_not_flags)
  with a show "EnumParser_init py R E sbv = EnumParser_finish py R E False str"
    by (simp add: EnumParser_init_def)
next
  assume a: "priv_get_enum_type E = Inr None"
  then have "\<not> is_baseflags E" by (simp add: get_enum_type_None_not_flags)
  with a show "EnumParser_init py R E (Some True) = Inl (ValueError varying_types_msg)"
    by (simp add: EnumParser_init_def)
next
  assume a: "EnumParser_finish py R E b ty = Inr P"
  then show "store_by_value P = b" and "value_type P = ty"
    and "get_parser py R ty = Inr (value_parser P)"
    by (auto simp: EnumParser_finish_def split: sum.splits)
next
  assume "is_baseflags E"
  then show "priv_get_enum_type E = Inr (Some int_type)" by (rule get_enum_type_flags)
next
  assume "\<not> is_baseflags E \<and> member_type E = Some mt \<and> mt \<noteq> object"
  then show "priv_get_enum_type E = Inr (Some mt)"
    by (simp add: priv_get_enum_type_def)
next
  assume "\<not> is_baseflags E \<and> (member_type E = None \<or> member_type E = Some object)
        \<and> members E = (first_name, first_type) # rest"
  then show "priv_get_enum_type E =
          Inr (if list_all (\<lambda>(member_name, ty'). ty' = first_type) rest
               then Some first_type else None)"
    by (auto simp: priv_get_enum_type_def)
qed

lemmas example_enum_defs =
  example_color_def example_mixed_def example_flags_def priv_get_enum_type_def
  EnumParser_finish_def

theorem C9_enum_policy_witness:
  "EnumParser_init example_python example_registry example_color None
     = Inr \<lparr>store_by_value = True, value_type = int_type, enum_cls = example_color,
            value_parser = Parser ''IntParser'' [] None\<rparr>
   \<and> EnumParser_init example_python example_registry example_color (Some False)
     = Inr \<lparr>store_by_value = False, value_type = int_type, enum_cls = example_color,
            value_parser = Parser ''IntParser'' [] None\<rparr>
   \<and> EnumParser_init example_python example_registry example_mixed None
     = Inr \<lparr>store_by_value = False, value_type = str, enum_cls = example_mixed,
            value_parser = Parser ''StringParser'' [] None\<rparr>
   \<and> EnumParser_init example_python example_registry example_mixed (Some True)
     = Inl (ValueError varying_types_msg)"
proof (intro conjI)
  have color: "priv_get_enum_type example_color = Inr (Some int_type)"
    by (simp add: example_enum_defs int_type_def object_def)
  have nf: "\<not> is_baseflags example_color"
    by (simp add: example_color_def)
  have mixed: "priv_get_enum_type example_mixed = Inr None"
    by (simp add: example_enum_defs int_type_def object_def str_def)
  have "EnumParser_init example_python example_registry example_color None =
        (case None of
           Some b \<Rightarrow> EnumParser_finish example_python example_registry example_color b int_type
         | None \<Rightarrow>
             (case py_issubclass example_python int_type (One int_type) of
                Inl msg \<Rightarrow> Inl (TypeError msg)
              | Inr b \<Rightarrow>
                  EnumParser_finish example_python example_registry example_color b int_type))"
    by (rule C9_enum_policy [THEN conjunct1, rule_format]) (simp add: color nf)
  then show "EnumParser_init example_python example_registry example_color None
     = Inr \<lparr>store_by_value = True, value_type = int_type, enum_cls = example_color,
            value_parser = Parser ''IntParser'' [] None\<rparr>"
    by (simp add: example_defs EnumParser_finish_def)
  have "EnumParser_init example_python example_registry example_color (Some False) =
        (case Some False of
           Some b \<Rightarrow> EnumParser_finish example_python example_registry example_color b int_type
         | None \<Rightarrow>
             (case py_issubclass example_python int_type (One int_type) of
                Inl msg \<Rightarrow> Inl (TypeError msg)
              | Inr b \<Rightarrow>
                  EnumParser_finish example_python example_registry example_color b int_type))"
    by (rule C9_enum_policy [THEN conjunct1, rule_format]) (simp add: color nf)
  then show "EnumParser_init example_python example_registry example_color (Some False)
     = Inr \<lparr>store_by_value = False, value_type = int_type, enum_cls = example_color,
            value_parser = Parser ''IntParser'' [] None\<rparr>"
    by (simp add: example_defs EnumParser_finish_def)
  have "EnumParser_init example_python example_registry example_mixed None
          = EnumParser_finish example_python example_registry example_mixed False str"
    by (rule C9_enum_policy [THEN conjunct2, THEN conjunct2, THEN conjunct1, rule_format])
       (simp add: mixed)
  then show "EnumParser_init example_python example_registry example_mixed None
     = Inr \<lparr>store_by_value = False, value_type = str, enum_cls = example_mixed,
            value_parser = Parser ''StringParser'' [] None\<rparr>"
    by (simp add: example_defs EnumParser_finish_def)
  show "EnumParser_init example_python example_registry example_mixed (Some True)
     = Inl (ValueError varying_types_msg)"
    by (rule C9_enum_policy
          [THEN conjunct2, THEN conjunct2, THEN conjunct2, THEN conjunct1, rule_format])
       (rule mixed)
qed

section \<open>Properties of the factory builder\<close>

lemma add_field_explicit:
  "field_parser f = Some p \<Longrightarrow>
   add_field py R h b f = Inr (p, dict_setitem h (builder_parsers b) (field_name f) p)"
  by (simp add: add_field_def)

lemma add_field_resolved:
  "field_parser f = None \<Longrightarrow>
   get_parser py R (case field_type f of Some ty \<Rightarrow> ty | None \<Rightarrow> str) = Inr q \<Longrightarrow>
   add_field py R h b f =
     Inr (Instance (fresh h) (parser_default py (parser_class q)),
          dict_setitem (h\<lparr>fresh := Suc (fresh h)\<rparr>) (builder_parsers b) (field_name f)
            (Instance (fresh h) (parser_default py (parser_class q))))"
  by (simp add: add_field_def)

lemma add_field_binds:
  "add_field py R h b f = Inr (p, h') \<Longrightarrow>
   cell h' (builder_parsers b) = AList.update (field_name f) p (cell h (builder_parsers b))"
  by (auto simp: add_field_def Let_def dict_setitem_def split: option.splits sum.splits)

lemma add_field_new_object:
  assumes "field_parser f = None" and "add_field py R h b f = Inr (p, h')"
  shows "\<exists>q. get_parser py R (case field_type f of Some ty \<Rightarrow> ty | None \<Rightarrow> str) = Inr q
           \<and> p = Instance (fresh h) (parser_default py (parser_class q))
           \<and> fresh h' = Suc (fresh h)"
  using assms
  by (auto simp: add_field_def Let_def dict_setitem_def split: sum.splits)

lemma dict_setitem_idem:
  "dict_setitem (dict_setitem h r k v) r k v = dict_setitem h r k v"
  by (simp add: dict_setitem_def)

lemma build_shares_dict:
  "mapping_items (dict_setitem h (builder_parsers b) k v) (factory_parsers (build b))
     = AList.update k v (mapping_items h (factory_parsers (build b)))"
  by (simp add: mapping_items_def build_def dict_setitem_def)

lemma build_proxy_read_only:
  "mapping_setitem h (factory_parsers (build b)) k v
     = Inl (TypeError (repr ''mappingproxy'' @ '' object does not support item assignment''))"
  by (simp add: mapping_setitem_def build_def)

lemmas example_builder_defs =
  example_builder_def example_builder_heap_def ComponentFactoryBuilder_init_def
  example_heap_def field_page_int_def field_page_str_def field_note_def field_tags_def
  add_field_def dict_setitem_def mapping_getitem_def mapping_items_def build_def

text \<open>
  \<open>add_field\<close> does not look at what the builder holds. Called a second time with a
  descriptor of the same name that carries another parser, it returns that other parser
  and the name is bound to it from then on. Called twice with the very same descriptor,
  one that carries no parser, it builds a parser each time: the second call returns
  another object than the first and binds the name to it.
\<close>

theorem C3_add_field_counterexample:
  "(case add_field example_python example_registry example_builder_heap example_builder
           field_page_int of
      Inl e \<Rightarrow> False
    | Inr (p1, h1) \<Rightarrow>
        (case add_field example_python example_registry h1 example_builder field_page_str of
           Inl e \<Rightarrow> False
         | Inr (p2, h2) \<Rightarrow>
             field_name field_page_str = field_name field_page_int
             \<and> p2 \<noteq> p1
             \<and> mapping_getitem h1 (MutableDict (builder_parsers example_builder)) ''page'' = Inr p1
             \<and> mapping_getitem h2 (MutableDict (builder_parsers example_builder)) ''page'' = Inr p2))
   \<and> (case add_field example_python example_registry example_builder_heap example_builder
             field_note of
        Inl e \<Rightarrow> False
      | Inr (p1, h1) \<Rightarrow>
          (case add_field example_python example_registry h1 example_builder field_note of
             Inl e \<Rightarrow> False
           | Inr (p2, h2) \<Rightarrow>
               p2 \<noteq> p1
               \<and> mapping_getitem h1 (MutableDict (builder_parsers example_builder)) ''note'' = Inr p1
               \<and> mapping_getitem h2 (MutableDict (builder_parsers example_builder)) ''note'' = Inr p2))"
  by (simp add: example_builder_defs example_defs)

text \<open>
  Claim C3, as amended. \<open>add_field\<close> keeps no record of the names already added:
  every call that returns binds the field's name to the parser it returns, whatever was
  bound to that name before, and leaves the other names as they were. With a descriptor
  that carries a parser, it returns that parser, and a repeated call returns the same
  parser again and leaves the mapping as it is. With a descriptor that carries none, a
  repeated call (under the same registry) builds a new instance of the same parser that
  is another object than the first, returns it and binds the name to it.
\<close>

theorem C3_add_field_overwrites:
  "(add_field py R h b f = Inr (p, h') \<longrightarrow>
      mapping_getitem h' (MutableDict (builder_parsers b)) (field_name f) = Inr p
      \<and> (\<forall>n. n \<noteq> field_name f \<longrightarrow>
            mapping_getitem h' (MutableDict (builder_parsers b)) n
              = mapping_getitem h (MutableDict (builder_parsers b)) n))
   \<and> (field_parser f = Some p \<longrightarrow>
        add_field py R h b f = Inr (p, dict_setitem h (builder_parsers b) (field_name f) p)
        \<and> add_field py R (dict_setitem h (builder_parsers b) (field_name f) p) b f
            = Inr (p, dict_setitem h (builder_parsers b) (field_name f) p))
   \<and> (field_parser f = None \<and> add_field py R h b f = Inr (p, h') \<longrightarrow>
        add_field py R h' b f
          = Inr (Instance (Suc (instance_id p)) (instance_parser p),
                 dict_setitem (h'\<lparr>fresh := Suc (fresh h')\<rparr>) (builder_parsers b) (field_name f)
                   (Instance (Suc (instance_id p)) (instance_parser p)))
        \<and> Instance (Suc (instance_id p)) (instance_parser p) \<noteq> p)"
proof (intro conjI impI allI)
  assume a: "add_field py R h b f = Inr (p, h')"
  show "mapping_getitem h' (MutableDict (builder_parsers b)) (field_name f) = Inr p"
    using add_field_binds [OF a]
    by (simp add: mapping_getitem_def mapping_items_def update_conv')
next
  fix n
  assume a: "add_field py R h b f = Inr (p, h')" and n: "n \<noteq> field_name f"
  show "mapping_getitem h' (MutableDict (builder_parsers b)) n
          = mapping_getitem h (MutableDict (builder_parsers b)) n"
    using add_field_binds [OF a] n
    by (simp add: mapping_getitem_def mapping_items_def update_conv')
next
  assume "field_parser f = Some p"
  then show "add_field py R h b f = Inr (p, dict_setitem h (builder_parsers b) (field_name f) p)"
    by (rule add_field_explicit)
next
  assume "field_parser f = Some p"
  then show "add_field py R (dict_setitem h (builder_parsers b) (field_name f) p) b f
            = Inr (p, dict_setitem h (builder_parsers b) (field_name f) p)"
    by (simp add: add_field_explicit dict_setitem_idem)
next
  assume a: "field_parser f = None \<and> add_field py R h b f = Inr (p, h')"
  then obtain q where q: "get_parser py R (case field_type f of Some ty \<Rightarrow> ty | None \<Rightarrow> str) = Inr q"
    and p: "p = Instance (fresh h) (parser_default py (parser_class q))"
    and fr: "fresh h' = Suc (fresh h)"
    using add_field_new_object by blast
  from a q show "add_field py R h' b f
          = Inr (Instance (Suc (instance_id p)) (instance_parser p),
                 dict_setitem (h'\<lparr>fresh := Suc (fresh h')\<rparr>) (builder_parsers b) (field_name f)
                   (Instance (Suc (instance_id p)) (instance_parser p)))"
    unfolding p by (simp add: add_field_resolved fr)
next
  assume "field_parser f = None \<and> add_field py R h b f = Inr (p, h')"
  show "Instance (Suc (instance_id p)) (instance_parser p) \<noteq> p"
    by (cases p) simp
qed

theorem C3_add_field_overwrites_witness:
  "mapping_getitem
       (dict_setitem example_builder_heap (builder_parsers example_builder) ''page''
          (Instance 0 (Parser ''IntParser'' [] None)))
       (MutableDict (builder_parsers example_builder)) ''page''
     = Inr (Instance 0 (Parser ''IntParser'' [] None))
   \<and> add_field example_python example_registry
       (dict_setitem example_builder_heap (builder_parsers example_builder) ''page''
          (Instance 0 (Parser ''IntParser'' [] None)))
       example_builder field_page_int
     = Inr (Instance 0 (Parser ''IntParser'' [] None),
            dict_setitem example_builder_heap (builder_parsers example_builder) ''page''
              (Instance 0 (Parser ''IntParser'' [] None)))
   \<and> add_field example_python example_registry
       (dict_setitem (example_builder_heap\<lparr>fresh := 4\<rparr>) (builder_parsers example_builder)
          ''note'' (Instance 3 (Parser ''StringParser'' [] None)))
       example_builder field_note
     = Inr (Instance 4 (Parser ''StringParser'' [] None),
            dict_setitem
              (dict_setitem (example_builder_heap\<lparr>fresh := 4\<rparr>)
                 (builder_parsers example_builder) ''note''
                 (Instance 3 (Parser ''StringParser'' [] None))\<lparr>fresh := 5\<rparr>)
              (builder_parsers example_builder) ''note''
              (Instance 4 (Parser ''StringParser'' [] None)))"
proof (intro conjI)
  have a: "add_field example_python example_registry example_builder_heap example_builder
             field_page_int
           = Inr (Instance 0 (Parser ''IntParser'' [] None),
                  dict_setitem example_builder_heap (builder_parsers example_builder) ''page''
                    (Instance 0 (Parser ''IntParser'' [] None)))"
    by (simp add: add_field_explicit field_page_int_def)
  from C3_add_field_overwrites [THEN conjunct1, THEN mp, OF a, THEN conjunct1]
  show "mapping_getitem
       (dict_setitem example_builder_heap (builder_parsers example_builder) ''page''
          (Instance 0 (Parser ''IntParser'' [] None)))
       (MutableDict (builder_parsers example_builder)) ''page''
     = Inr (Instance 0 (Parser ''IntParser'' [] None))"
    by (simp add: field_page_int_def)
  have e: "field_parser field_page_int = Some (Instance 0 (Parser ''IntParser'' [] None))"
    by (simp add: field_page_int_def)
  from C3_add_field_overwrites
         [THEN conjunct2, THEN conjunct1, THEN mp, OF e, THEN conjunct2,
          of example_python example_registry example_builder_heap example_builder]
  show "add_field example_python example_registry
       (dict_setitem example_builder_heap (builder_parsers example_builder) ''page''
          (Instance 0 (Parser ''IntParser'' [] None)))
       example_builder field_page_int
     = Inr (Instance 0 (Parser ''IntParser'' [] None),
            dict_setitem example_builder_heap (builder_parsers example_builder) ''page''
              (Instance 0 (Parser ''IntParser'' [] None)))"
    by (simp add: field_page_int_def)
  have n: "field_parser field_note = None
     \<and> add_field example_python example_registry example_builder_heap example_builder
          field_note
        = Inr (Instance 3 (Parser ''StringParser'' [] None),
               dict_setitem (example_builder_heap\<lparr>fresh := 4\<rparr>)
                 (builder_parsers example_builder) ''note''
                 (Instance 3 (Parser ''StringParser'' [] None)))"
    by (simp add: example_builder_defs example_defs)
  from C3_add_field_overwrites [THEN conjunct2, THEN conjunct2, THEN mp, OF n, THEN conjunct1]
  show "add_field example_python example_registry
       (dict_setitem (example_builder_heap\<lparr>fresh := 4\<rparr>) (builder_parsers example_builder)
          ''note'' (Instance 3 (Parser ''StringParser'' [] None)))
       example_builder field_note
     = Inr (Instance 4 (Parser ''StringParser'' [] None),
            dict_setitem
              (dict_setitem (example_builder_heap\<lparr>fresh := 4\<rparr>)
                 (builder_parsers example_builder) ''note''
                 (Instance 3 (Parser ''StringParser'' [] None))\<lparr>fresh := 5\<rparr>)
              (builder_parsers example_builder) ''note''
              (Instance 4 (Parser ''StringParser'' [] None)))"
    by (simp add: field_note_def dict_setitem_def example_builder_heap_def
          ComponentFactoryBuilder_init_def example_heap_def)
qed

text \<open>
  Claim C2, evaluated where the code departs from it. For the field \<open>tags: List[int]\<close>
  without a parser of its own, \<open>get_parser\<close> builds the collection parser around the
  integer parser; \<open>add_field\<close> then calls \<open>.default()\<close> on that instance, and what
  it returns and records is a new instance of the collection parser class made without
  arguments: the inner parser and the collection type are gone.
\<close>

theorem C2_add_field_discards_composite:
  "get_parser example_python example_registry (Alias (Class ''list'') [int_type])
     = Inr (Parser ''CollectionParser'' [Parser ''IntParser'' [] None]
              (Some (Plain (Class ''list''))))
   \<and> (case add_field example_python example_registry example_builder_heap example_builder
             field_tags of
        Inl e \<Rightarrow> False
      | Inr (p, h') \<Rightarrow>
          instance_parser p = Parser ''CollectionParser'' [] None
          \<and> mapping_getitem h' (MutableDict (builder_parsers example_builder)) ''tags''
              = Inr p)"
  by (simp add: example_builder_defs example_defs)

text \<open>
  Claim C4, evaluated where the code departs from it. \<open>build\<close> wraps the builder's own
  dict in a read-only proxy without copying it. A factory built after the field
  \<open>page\<close> was added shows one name; after a further \<open>add_field\<close> on the same
  builder the same factory shows two.
\<close>

theorem C4_build_shares_builder_dict:
  "(case add_field example_python example_registry example_builder_heap example_builder
           field_page_int of
      Inl e \<Rightarrow> False
    | Inr (p1, h1) \<Rightarrow>
        mapping_items h1 (factory_parsers (build example_builder))
          = [(''page'', Instance 0 (Parser ''IntParser'' [] None))]
        \<and> (case add_field example_python example_registry h1 example_builder field_note of
              Inl e \<Rightarrow> False
            | Inr (p2, h2) \<Rightarrow>
                mapping_items h2 (factory_parsers (build example_builder))
                  = [(''page'', Instance 0 (Parser ''IntParser'' [] None)),
                     (''note'', Instance 3 (Parser ''StringParser'' [] None))]))"
  by (simp add: example_builder_defs example_defs)

section \<open>Further properties of the resolver and the builder\<close>

lemma collect_map_Inr:
  "list_all2 (\<lambda>x y. f x = Inr y) xs ys \<Longrightarrow> collect (map f xs) = Inr ys"
  by (induction xs ys rule: list_all2_induct) simp_all

text \<open>
  A descriptor that carries a parser: \<open>add_field\<close> returns that parser and binds the
  field's name to it, whatever the declared type and the registry are.
\<close>

theorem add_field_explicit_codec:
  "add_field py R h b \<lparr>field_name = n, field_type = ty, field_parser = Some p\<rparr>
     = Inr (p, dict_setitem h (builder_parsers b) n p)
   \<and> mapping_getitem (dict_setitem h (builder_parsers b) n p)
        (MutableDict (builder_parsers b)) n = Inr p"
  by (simp add: add_field_def mapping_getitem_def mapping_items_def dict_setitem_def update_conv')

text \<open>
  Union and tuple shapes: when the origin is \<open>typing.Union\<close> or a subclass of
  \<open>tuple\<close>, and every type argument resolves, \<open>get_parser\<close> returns an instance
  of the origin's parser class holding the resolved inner parsers, one for each type
  argument and in their order.
\<close>

theorem get_parser_union_tuple:
  "priv_get_parser_type py R (Plain c) = Inr parser_type
   \<and> (Plain c = typing_Union \<or> py_issubclass py (Plain c) (One typing_Tuple) = Inr True)
   \<and> list_all2 (\<lambda>arg p. get_parser py R arg = Inr p) type_args inner
   \<longrightarrow> get_parser py R (Alias c type_args) = Inr (Parser parser_type inner None)"
proof (intro impI)
  assume a: "priv_get_parser_type py R (Plain c) = Inr parser_type
   \<and> (Plain c = typing_Union \<or> py_issubclass py (Plain c) (One typing_Tuple) = Inr True)
   \<and> list_all2 (\<lambda>arg p. get_parser py R arg = Inr p) type_args inner"
  then have "collect (map (get_parser py R) type_args) = Inr inner"
    by (simp add: collect_map_Inr)
  with a show "get_parser py R (Alias c type_args) = Inr (Parser parser_type inner None)"
    by auto
qed

theorem get_parser_union_tuple_witness:
  "get_parser example_python example_registry
     (Alias (Special ''Union'') [int_type, Alias (Class ''list'') [], str])
   = Inr (Parser ''UnionParser''
            [Parser ''IntParser'' [] None,
             Parser ''CollectionParser'' [Parser ''StringParser'' [] None]
               (Some (Plain (Class ''list''))),
             Parser ''StringParser'' [] None] None)"
proof -
  have h: "priv_get_parser_type example_python example_registry (Plain (Special ''Union''))
       = Inr ''UnionParser''
     \<and> (Plain (Special ''Union'') = typing_Union
         \<or> py_issubclass example_python (Plain (Special ''Union'')) (One typing_Tuple) = Inr True)
     \<and> list_all2 (\<lambda>arg p. get_parser example_python example_registry arg = Inr p)
         [int_type, Alias (Class ''list'') [], str]
         [Parser ''IntParser'' [] None,
          Parser ''CollectionParser'' [Parser ''StringParser'' [] None]
            (Some (Plain (Class ''list''))),
          Parser ''StringParser'' [] None]"
    by (simp add: example_defs)
  from get_parser_union_tuple [THEN mp, OF h] show ?thesis .
qed

text \<open>
  Any other generic shape: an origin that resolves in the registry but is neither
  \<open>typing.Union\<close> nor a tuple nor a collection makes \<open>get_parser\<close> fail with a
  \<open>TypeError\<close> that carries the name of the type expression, where it has one.
\<close>

theorem get_parser_unsupported_shape:
  "priv_get_parser_type py R (Plain c) = Inr parser_type
   \<and> Plain c \<noteq> typing_Union
   \<and> py_issubclass py (Plain c) (One typing_Tuple) = Inr False
   \<and> py_issubclass py (Plain c) (One typing_Collection) = Inr False
   \<and> py_name py (Alias c type_args) = Some name
   \<longrightarrow> get_parser py R (Alias c type_args)
        = Inl (TypeError (''Coult not create a parser for type '' @ repr name @ ''.''))"
  by (simp add: could_not_create_error_def)

theorem get_parser_unsupported_shape_witness:
  "get_parser example_python
     (register_parser example_registry ''IntParser'' [int_type, Plain (Class ''Base'')] True)
     (Alias (Class ''Base'') [int_type])
   = Inl (TypeError (''Coult not create a parser for type '' @ repr ''Base'' @ ''.''))"
proof -
  have h: "priv_get_parser_type example_python
         (register_parser example_registry ''IntParser'' [int_type, Plain (Class ''Base'')] True)
         (Plain (Class ''Base'')) = Inr ''IntParser''
     \<and> Plain (Class ''Base'') \<noteq> typing_Union
     \<and> py_issubclass example_python (Plain (Class ''Base'')) (One typing_Tuple) = Inr False
     \<and> py_issubclass example_python (Plain (Class ''Base'')) (One typing_Collection) = Inr False
     \<and> py_name example_python (Alias (Class ''Base'') [int_type]) = Some ''Base''"
    by (simp add: example_defs)
  from get_parser_unsupported_shape [THEN mp, OF h] show ?thesis .
qed

text \<open>
  A requested object without \<open>__name__\<close>: \<open>Tuple[int, ...]\<close> has the type
  arguments \<open>int\<close> and \<open>Ellipsis\<close>, and the tuple branch of \<open>get_parser\<close>
  resolves both. \<open>Ellipsis\<close> is no class and no key, so the lookup misses, and building
  the message of the \<open>TypeError\<close> ends in \<open>AttributeError\<close>.
\<close>

lemma get_parser_tuple_ellipsis:
  "get_parser example_python
     (register_parser example_registry ''TupleParser'' [Plain (Class ''tuple'')] True)
     (Alias (Class ''tuple'') [int_type, Plain (Special ''Ellipsis'')])
   = Inl (AttributeError ''__name__'')"
  by (simp add: example_defs)

end
